theory Spec2Isabelle
  imports Complex_Main "HOL-Library.Sublist"
begin

section \<open>JavaScript string primitives used by the sources\<close>

text \<open>
  Strings are lists of characters (code units). \<open>includesJS s sep\<close> is
  \<^verbatim>\<open>s.includes(sep)\<close>; \<open>splitJS sep s\<close> is \<^verbatim>\<open>s.split(sep)\<close> for a string separator:
  the occurrences are found left to right and do not overlap, and the result is never empty.
\<close>

fun includesJS :: "string \<Rightarrow> string \<Rightarrow> bool" where
  "includesJS [] sep = (sep = [])"
| "includesJS (c # cs) sep = (prefix sep (c # cs) \<or> includesJS cs sep)"

function split_acc :: "string \<Rightarrow> string \<Rightarrow> string \<Rightarrow> string list" where
  "split_acc sep acc [] = [rev acc]"
| "split_acc sep acc (c # cs) =
     (if sep \<noteq> [] \<and> prefix sep (c # cs)
      then rev acc # split_acc sep [] (drop (length sep) (c # cs))
      else split_acc sep (c # acc) cs)"
  by pat_completeness auto
termination
  by (relation "measure (\<lambda>(sep, acc, s). length s)") auto

definition splitJS :: "string \<Rightarrow> string \<Rightarrow> string list" where
  "splitJS sep s = (if sep = [] then map (\<lambda>c. [c]) s else split_acc sep [] s)"

text \<open>A string that may be \<open>undefined\<close> is truthy when it is present and not empty.\<close>

definition truthyStr :: "string option \<Rightarrow> bool" where
  "truthyStr v = (case v of None \<Rightarrow> False | Some s \<Rightarrow> s \<noteq> [])"

text \<open>\<open>uniq\<close> of lodash: the first occurrence of each element, in order.\<close>

primrec uniq :: "'a list \<Rightarrow> 'a list" where
  "uniq [] = []"
| "uniq (x # xs) = x # filter (\<lambda>y. y \<noteq> x) (uniq xs)"

section \<open>Ingestion orchestrator (src/lib/context/training.tsx)\<close>

datatype TrainingState =
    Idle
  | FetchingData
  | Loading nat nat string
  | CancelRequested
  | Complete "string list"

datatype source_type = Github | Nango | Motif | Website | OtherSource

text \<open>A thrown value: an object with \<open>status\<close> and \<open>name\<close> fields, or anything else.\<close>

datatype js_exn = StatusError int string string | OtherError string

fun exn_status :: "js_exn \<Rightarrow> int option" where
  "exn_status (StatusError st nm msg) = Some st"
| "exn_status (OtherError msg) = None"

fun exn_name :: "js_exn \<Rightarrow> string option" where
  "exn_name (StatusError st nm msg) = Some nm"
| "exn_name (OtherError msg) = None"

record checksum_row =
  row_path :: string
  row_checksum :: "string option"

text \<open>What \<open>getFileData\<close> resolves to: every field may be missing.\<close>

record PartialFileData =
  pf_name :: "string option"
  pf_content :: "string option"
  pf_metadata :: "string option"
  pf_contentType :: "string option"

record FileData =
  fd_path :: string
  fd_name :: string
  fd_content :: string
  fd_metadata :: "string option"
  fd_contentType :: "string option"

text \<open>The calls the orchestrator makes to its collaborators, in the order it makes them:
  \<open>getFileData(index)\<close> with what it resolved to, \<open>processFile(sourceId, file)\<close>, and the
  completion callback \<open>onFileProcessed(path)\<close>.\<close>

datatype train_event =
    GetFileData nat "js_exn + PartialFileData option"
  | ProcessFile string FileData
  | FileProcessed string

text \<open>
  The collaborators and configuration the component closes over. \<open>quotaId\<close> is the
  constant \<^verbatim>\<open>API_ERROR_ID_CONTENT_TOKEN_QUOTA_EXCEEDED\<close>, \<open>jsonStringify\<close> is
  \<^verbatim>\<open>JSON.stringify\<close> on a thrown value, \<open>loadChecksums\<close> is the query on the
  \<^verbatim>\<open>files\<close> table (its \<open>data\<close>, which may be null; \<open>Inl\<close> when the awaited query
  rejects).
\<close>

record train_env =
  project_id :: "string option"
  cfg_include :: "string list"
  cfg_exclude :: "string list"
  shouldIncludeFileWithPath :: "string \<Rightarrow> string list \<Rightarrow> string list \<Rightarrow> bool \<Rightarrow> bool"
  createChecksum :: "string \<Rightarrow> string"
  processFile :: "string \<Rightarrow> FileData \<Rightarrow> js_exn option"
  loadChecksums :: "string \<Rightarrow> js_exn + checksum_row list option"
  quotaId :: string
  jsonStringify :: "js_exn \<Rightarrow> string"

text \<open>The component's mutable state: the two \<open>useState\<close> cells, the stop flag, and the call log.\<close>

record orch =
  state :: TrainingState
  errors :: "string list"
  stopFlag :: bool
  calls :: "train_event list"

definition or_empty :: "string option \<Rightarrow> string" where
  "or_empty v = (case v of None \<Rightarrow> [] | Some s \<Rightarrow> s)"

definition prevChecksumOf :: "checksum_row list \<Rightarrow> string \<Rightarrow> string option" where
  "prevChecksumOf checksums path =
     (case find (\<lambda>c. row_path c = path) checksums of
        None \<Rightarrow> None
      | Some c \<Rightarrow> row_checksum c)"

definition isQuotaExceeded :: "train_env \<Rightarrow> js_exn \<Rightarrow> bool" where
  "isQuotaExceeded env e = (exn_status e = Some 403 \<and> exn_name e = Some (quotaId env))"

definition errorMessage :: "train_env \<Rightarrow> string \<Rightarrow> js_exn \<Rightarrow> string" where
  "errorMessage env path e = ''Error processing file '' @ path @ '': '' @ jsonStringify env e"

text \<open>
  \<open>generateEmbeddingForFile\<close>: the result's first component is the exception the call
  throws, if any.
\<close>

definition generateEmbeddingForFile ::
  "train_env \<Rightarrow> nat \<Rightarrow> checksum_row list \<Rightarrow> string \<Rightarrow> source_type \<Rightarrow> nat \<Rightarrow> bool \<Rightarrow>
   (nat \<Rightarrow> string) \<Rightarrow> (nat \<Rightarrow> js_exn + PartialFileData option) \<Rightarrow> orch \<Rightarrow> js_exn option \<times> orch" where
  "generateEmbeddingForFile env index checksums sourceId sourceType numFiles forceRetrain
     getFilePath getFileData s =
    (if stopFlag s then (None, s)
     else
       let path = getFilePath index in
       if \<not> shouldIncludeFileWithPath env path (cfg_include env) (cfg_exclude env)
              (sourceType = Website)
       then (None, s)
       else
         let s1 = s\<lparr>state := Loading (index + 1) numFiles (last (splitJS ''/'' path))\<rparr>;
             prevChecksum = prevChecksumOf checksums path;
             s2 = s1\<lparr>calls := calls s1 @ [GetFileData index (getFileData index)]\<rparr>
         in
         (case getFileData index of
            Inl e \<Rightarrow> (Some e, s2)
          | Inr None \<Rightarrow> (None, s2)
          | Inr (Some fileData) \<Rightarrow>
              let currentChecksum = createChecksum env (or_empty (pf_content fileData)) in
              if prevChecksum = Some currentChecksum \<and> \<not> forceRetrain then (None, s2)
              else
                let file = \<lparr>fd_path = path,
                            fd_name = or_empty (pf_name fileData),
                            fd_content = or_empty (pf_content fileData),
                            fd_metadata = pf_metadata fileData,
                            fd_contentType = pf_contentType fileData\<rparr>;
                    s3 = s2\<lparr>calls := calls s2 @ [ProcessFile sourceId file]\<rparr>
                in
                (case processFile env sourceId file of
                   Some e \<Rightarrow>
                     if isQuotaExceeded env e
                     then (Some e, s3\<lparr>calls := calls s3 @ [FileProcessed path], state := Idle\<rparr>)
                     else (None, s3\<lparr>errors := errors s3 @ [errorMessage env path e],
                                    calls := calls s3 @ [FileProcessed path]\<rparr>)
                 | None \<Rightarrow> (None, s3\<lparr>calls := calls s3 @ [FileProcessed path]\<rparr>))))"

text \<open>
  \<open>generateEmbeddings\<close>. The pool \<^verbatim>\<open>pLimit(5)\<close> starts the tasks in index order; the
  tasks share nothing but this state, and the model runs them one after the other in
  that order. Each task has its own \<^verbatim>\<open>try/catch\<close>, which logs the exception to the
  console and nothing else, so \<^verbatim>\<open>Promise.all\<close> never rejects.
\<close>

definition runTask ::
  "train_env \<Rightarrow> checksum_row list \<Rightarrow> string \<Rightarrow> source_type \<Rightarrow> nat \<Rightarrow> bool \<Rightarrow>
   (nat \<Rightarrow> string) \<Rightarrow> (nat \<Rightarrow> js_exn + PartialFileData option) \<Rightarrow> nat \<Rightarrow> orch \<Rightarrow> orch" where
  "runTask env checksums sourceId sourceType numFiles forceRetrain getFilePath getFileData index s =
     (case generateEmbeddingForFile env index checksums sourceId sourceType numFiles forceRetrain
             getFilePath getFileData s of
        (Some e, s') \<Rightarrow> s'
      | (None, s') \<Rightarrow> s')"

definition generateEmbeddings ::
  "train_env \<Rightarrow> string \<Rightarrow> source_type \<Rightarrow> nat \<Rightarrow> bool \<Rightarrow>
   (nat \<Rightarrow> string) \<Rightarrow> (nat \<Rightarrow> js_exn + PartialFileData option) \<Rightarrow> orch \<Rightarrow>
   js_exn option \<times> orch" where
  "generateEmbeddings env sourceId sourceType numFiles forceRetrain getFilePath getFileData s =
     (if \<not> truthyStr (project_id env) then (None, s)
      else
        let s0 = s\<lparr>errors := [], stopFlag := False\<rparr> in
        (case loadChecksums env sourceId of
           Inl e \<Rightarrow> (Some e, s0)
         | Inr data \<Rightarrow>
             let checksums = (case data of None \<Rightarrow> [] | Some cs \<Rightarrow> cs);
                 s1 = fold (runTask env checksums sourceId sourceType numFiles forceRetrain
                              getFilePath getFileData) [0..<numFiles] s0
             in (None, s1\<lparr>state := Idle\<rparr>)))"

definition new_calls :: "orch \<Rightarrow> orch \<Rightarrow> train_event list" where
  "new_calls s s' = drop (length (calls s)) (calls s')"

fun processedPaths :: "train_event list \<Rightarrow> string list" where
  "processedPaths [] = []"
| "processedPaths (ProcessFile sid f # es) = fd_path f # processedPaths es"
| "processedPaths (e # es) = processedPaths es"

text \<open>A concrete run: seven items, all new, and the indexing collaborator answers the
  fourth (index 3) with the quota error.\<close>

definition quota_env :: train_env where
  "quota_env =
     \<lparr>project_id = Some ''p'', cfg_include = [], cfg_exclude = [],
      shouldIncludeFileWithPath = (\<lambda>p i e w. True),
      createChecksum = (\<lambda>c. c),
      processFile = (\<lambda>sid f. if fd_path f = ''f3''
                                then Some (StatusError 403 ''quota'' ''quota exceeded'')
                                else None),
      loadChecksums = (\<lambda>sid. Inr (Some [\<lparr>row_path = ''f0'', row_checksum = Some ''x''\<rparr>])),
      quotaId = ''quota'',
      jsonStringify = (\<lambda>e. ''{}'')\<rparr>"

definition item_paths :: "string list" where
  "item_paths = [''f0'', ''f1'', ''f2'', ''f3'', ''f4'', ''f5'', ''f6'']"

definition item_path :: "nat \<Rightarrow> string" where
  "item_path i = item_paths ! i"

definition item_data :: "nat \<Rightarrow> js_exn + PartialFileData option" where
  "item_data i = Inr (Some \<lparr>pf_name = Some (item_path i), pf_content = Some ''x'',
                               pf_metadata = None, pf_contentType = None\<rparr>)"

definition orch_init :: orch where
  "orch_init = \<lparr>state = Idle, errors = [], stopFlag = False, calls = []\<rparr>"

text \<open>The messages a run may append to the error list: those of exceptions other than
  the quota error.\<close>

definition listed :: "train_env \<Rightarrow> (nat \<Rightarrow> string) \<Rightarrow> string list \<Rightarrow> bool" where
  "listed env getFilePath ms \<longleftrightarrow>
     (\<forall>m \<in> set ms. \<exists>i e. m = errorMessage env (getFilePath i) e \<and> \<not> isQuotaExceeded env e)"

subsection \<open>Website sources: the discovery loop of \<open>_trainSource\<close>\<close>

text \<open>
  The helpers of the website branch (lib/integrations/website and lib/utils, not
  part of these sources) are parameters. \<open>fetchPageContent\<close> resolves to the page's
  HTML, to nothing, or throws; \<open>removeTrailingSlashQueryParamsAndHash\<close> returns a
  string, so \<^verbatim>\<open>.filter(isPresent)\<close> keeps every link.
\<close>

record website_env =
  w_train :: train_env
  fetchPageContent :: "string \<Rightarrow> js_exn + string option"
  extractLinksFromHtml :: "string \<Rightarrow> string list"
  isHrefFromBaseUrl :: "string \<Rightarrow> string \<Rightarrow> bool"
  completeHrefWithBaseUrl :: "string \<Rightarrow> string \<Rightarrow> string"
  removeTrailingSlashQueryParamsAndHash :: "string \<Rightarrow> string"
  getNameFromUrlOrPath :: "string \<Rightarrow> string"
  toNormalizedUrl :: "string \<Rightarrow> string"
  isSitemapUrl :: "string \<Rightarrow> bool"
  fetchSitemapUrls :: "string \<Rightarrow> js_exn + string list"

text \<open>The \<open>getFileData\<close> closure of \<open>generateEmbeddingsForUrls\<close>.\<close>

definition pageFileData :: "website_env \<Rightarrow> string list \<Rightarrow> nat \<Rightarrow> js_exn + PartialFileData option" where
  "pageFileData env urls i =
     (let url = urls ! i;
          name = getNameFromUrlOrPath env url
      in case fetchPageContent env url of
           Inl e \<Rightarrow> Inl e
         | Inr content \<Rightarrow>
             if \<not> truthyStr content then Inr None
             else Inr (Some \<lparr>pf_name = Some name, pf_content = content,
                               pf_metadata = None, pf_contentType = None\<rparr>))"

text \<open>
  What the run pushed to \<open>processedContent\<close>: the content of every page whose resolve
  yielded content; and the indices whose page was requested.
\<close>

fun resolvedContents :: "train_event list \<Rightarrow> string list" where
  "resolvedContents [] = []"
| "resolvedContents (GetFileData i (Inr (Some fd)) # es) = or_empty (pf_content fd) # resolvedContents es"
| "resolvedContents (e # es) = resolvedContents es"

fun requestedIndices :: "train_event list \<Rightarrow> nat list" where
  "requestedIndices [] = []"
| "requestedIndices (GetFileData i r # es) = i # requestedIndices es"
| "requestedIndices (e # es) = requestedIndices es"

text \<open>
  \<open>generateEmbeddingsForUrls\<close>: the exception, if the run throws, the contents
  collected, the URLs whose page was requested, and the new state.
\<close>

definition generateEmbeddingsForUrls ::
  "website_env \<Rightarrow> string \<Rightarrow> bool \<Rightarrow> string list \<Rightarrow> orch \<Rightarrow>
   js_exn option \<times> string list \<times> string list \<times> orch" where
  "generateEmbeddingsForUrls env sourceId forceRetrain urls s =
     (case generateEmbeddings (w_train env) sourceId Website (length urls) forceRetrain
             (\<lambda>i. urls ! i) (pageFileData env urls) s of
        (thrown, s') \<Rightarrow>
          (thrown,
           resolvedContents (new_calls s s'),
           map (\<lambda>i. urls ! i) (requestedIndices (new_calls s s')),
           s'))"

definition discoveredLinks :: "website_env \<Rightarrow> string \<Rightarrow> string list \<Rightarrow> string list" where
  "discoveredLinks env baseUrl processedContent =
     map (\<lambda>href. removeTrailingSlashQueryParamsAndHash env (completeHrefWithBaseUrl env baseUrl href))
       (filter (isHrefFromBaseUrl env baseUrl)
          (uniq (concat (map (extractLinksFromHtml env) processedContent))))"

text \<open>The variables of the loop, with the URLs requested in each round so far and whether
  a round threw.\<close>

record crawl =
  processedLinks :: "string list"
  linksToProcess :: "string list"
  requested :: "string list list"
  aborted :: bool
  crawl_orch :: orch

text \<open>The body of \<^verbatim>\<open>while (linksToProcess.length > 0)\<close>; a round that throws breaks.\<close>

definition discoveryRound :: "website_env \<Rightarrow> string \<Rightarrow> bool \<Rightarrow> string \<Rightarrow> crawl \<Rightarrow> crawl" where
  "discoveryRound env sourceId forceRetrain baseUrl c =
     (case generateEmbeddingsForUrls env sourceId forceRetrain (linksToProcess c) (crawl_orch c) of
        (thrown, processedContent, urls, s') \<Rightarrow>
          (case thrown of
             Some e \<Rightarrow> c\<lparr>requested := requested c @ [urls], aborted := True, crawl_orch := s'\<rparr>
           | None \<Rightarrow>
               let found = discoveredLinks env baseUrl processedContent;
                   processed = processedLinks c @ linksToProcess c
               in c\<lparr>processedLinks := processed,
                    linksToProcess := filter (\<lambda>link. link \<notin> set processed) found,
                    requested := requested c @ [urls],
                    crawl_orch := s'\<rparr>))"

partial_function (option) discoveryLoop ::
  "website_env \<Rightarrow> string \<Rightarrow> bool \<Rightarrow> string \<Rightarrow> crawl \<Rightarrow> crawl option" where
  "discoveryLoop env sourceId forceRetrain baseUrl c =
     (if linksToProcess c = [] \<or> aborted c then Some c
      else discoveryLoop env sourceId forceRetrain baseUrl
             (discoveryRound env sourceId forceRetrain baseUrl c))"

declare discoveryLoop.simps [code]

definition crawl_init :: "website_env \<Rightarrow> string \<Rightarrow> orch \<Rightarrow> crawl" where
  "crawl_init env url s =
     \<lparr>processedLinks = [],
      linksToProcess = [removeTrailingSlashQueryParamsAndHash env url],
      requested = [],
      aborted = False,
      crawl_orch = s\<rparr>"

text \<open>
  The website case of \<open>_trainSource\<close>: a sitemap gives its first ten URLs, anything
  else starts the discovery at the root page.
\<close>

definition trainWebsite ::
  "website_env \<Rightarrow> string \<Rightarrow> string \<Rightarrow> bool \<Rightarrow> orch \<Rightarrow> (js_exn + crawl) option" where
  "trainWebsite env sourceId url forceRetrain s =
     (let baseUrl = toNormalizedUrl env url in
      if isSitemapUrl env baseUrl then
        (case fetchSitemapUrls env baseUrl of
           Inl e \<Rightarrow> Some (Inl e)
         | Inr sitemapUrls \<Rightarrow>
             (case generateEmbeddingsForUrls env sourceId forceRetrain (take 10 sitemapUrls) s of
                (thrown, processedContent, urls, s') \<Rightarrow>
                  (case thrown of
                     Some e \<Rightarrow> Some (Inl e)
                   | None \<Rightarrow>
                       Some (Inr \<lparr>processedLinks = [], linksToProcess = [], requested = [urls],
                                  aborted = False, crawl_orch = s'\<rparr>))))
      else map_option Inr (discoveryLoop env sourceId forceRetrain baseUrl (crawl_init env url s)))"

text \<open>
  A finite same-origin link graph: a finite set of URLs that holds the root and is
  closed under the links discovered on the pages of its URLs.
\<close>

definition closed_site :: "website_env \<Rightarrow> string \<Rightarrow> string set \<Rightarrow> bool" where
  "closed_site env baseUrl U \<longleftrightarrow>
     finite U \<and>
     (\<forall>u \<in> U. \<forall>content. fetchPageContent env u = Inr (Some content) \<longrightarrow>
        set (discoveredLinks env baseUrl [content]) \<subseteq> U)"

text \<open>
  Properties of the calls of a run and of the rounds of the loop: every resolve event
  of a run over \<open>n\<close> items is the resolve of an index below \<open>n\<close> with its result; the
  rounds request pairwise disjoint sets of URLs; and the invariant of the loop
  (every URL requested so far has been processed, and the frontier holds no
  processed URL).
\<close>

definition item_events ::
  "(nat \<Rightarrow> js_exn + PartialFileData option) \<Rightarrow> nat \<Rightarrow> train_event list \<Rightarrow> bool" where
  "item_events getFileData n xs \<longleftrightarrow>
     (\<forall>e \<in> set xs. \<forall>i r. e = GetFileData i r \<longrightarrow> i < n \<and> r = getFileData i)"

fun disjoint_rounds :: "string list list \<Rightarrow> bool" where
  "disjoint_rounds [] = True"
| "disjoint_rounds (r # rs) = ((\<forall>r' \<in> set rs. set r \<inter> set r' = {}) \<and> disjoint_rounds rs)"

definition crawl_inv :: "crawl \<Rightarrow> bool" where
  "crawl_inv c \<longleftrightarrow>
     disjoint_rounds (requested c) \<and>
     (\<not> aborted c \<longrightarrow>
        (\<forall>r \<in> set (requested c). set r \<subseteq> set (processedLinks c)) \<and>
        set (linksToProcess c) \<inter> set (processedLinks c) = {})"

text \<open>
  Modelled from the spec: \<open>removeTrailingSlashQueryParamsAndHash\<close> (lib/utils is not
  part of these sources), "trailing slash, query string, and fragment stripped".
\<close>

definition stripHashQuerySlash :: "string \<Rightarrow> string" where
  "stripHashQuerySlash url =
     (let noHash = takeWhile (\<lambda>c. c \<noteq> CHR ''#'') url;
          noQuery = takeWhile (\<lambda>c. c \<noteq> CHR ''?'') noHash
      in rev (dropWhile (\<lambda>c. c = CHR ''/'') (rev noQuery)))"

text \<open>
  A site of two pages. The root page links to \<open>/a\<close> and to \<open>/a#top\<close>, the page \<open>/a\<close>
  links back to the root. The HTML of a page is written as its hrefs separated by
  blanks, which is all \<open>extractLinksFromHtml\<close> reads of it.
\<close>

definition site_train :: train_env where
  "site_train =
     \<lparr>project_id = Some ''p'', cfg_include = [], cfg_exclude = [],
      shouldIncludeFileWithPath = (\<lambda>p i e w. True),
      createChecksum = (\<lambda>c. c),
      processFile = (\<lambda>sid f. None),
      loadChecksums = (\<lambda>sid. Inr (Some [])),
      quotaId = ''quota'',
      jsonStringify = (\<lambda>e. ''{}'')\<rparr>"

definition site_env :: website_env where
  "site_env =
     \<lparr>w_train = site_train,
      fetchPageContent = (\<lambda>url. if url = ''https://x.org'' then Inr (Some ''/a /a#top'')
                                   else if url = ''https://x.org/a'' then Inr (Some ''/'')
                                   else Inr None),
      extractLinksFromHtml = splitJS '' '',
      isHrefFromBaseUrl = (\<lambda>base href. prefix ''/'' href \<or> prefix base href),
      completeHrefWithBaseUrl = (\<lambda>base href. if prefix ''/'' href then base @ href else href),
      removeTrailingSlashQueryParamsAndHash = stripHashQuerySlash,
      getNameFromUrlOrPath = (\<lambda>url. url),
      toNormalizedUrl = (\<lambda>url. stripHashQuerySlash url),
      isSitemapUrl = (\<lambda>url. False),
      fetchSitemapUrls = (\<lambda>url. Inr [])\<rparr>"

section \<open>Client stream decoder (src/packages/core/index.js)\<close>

definition I_DONT_KNOW_MESSAGE :: string where
  "I_DONT_KNOW_MESSAGE = ''Sorry, I am not sure how to answer that.''"

definition DEFAULT_MODEL :: string where
  "DEFAULT_MODEL = ''gpt-3.5-turbo''"

definition MARKPROMPT_COMPLETIONS_URL :: string where
  "MARKPROMPT_COMPLETIONS_URL = ''https://api.markprompt.com/v1/completions''"

definition STREAM_SEPARATOR :: string where
  "STREAM_SEPARATOR = ''___START_RESPONSE_STREAM___''"

text \<open>A JSON value, as \<^verbatim>\<open>JSON.parse\<close> returns it.\<close>

datatype json =
    JNull
  | JBool bool
  | JNum real
  | JStr string
  | JArr "json list"
  | JObj "(string \<times> json) list"

text \<open>The caller's options; a missing field is \<open>None\<close> (the abort signal is left out).\<close>

record Options =
  opt_completionsUrl :: "string option"
  opt_iDontKnowMessage :: "string option"
  opt_model :: "string option"
  opt_promptTemplate :: "string option"

definition or_default :: "'a option \<Rightarrow> 'a \<Rightarrow> 'a" where
  "or_default v d = (case v of None \<Rightarrow> d | Some x \<Rightarrow> x)"

text \<open>\<^verbatim>\<open>options?.[key] ?? value\<close> for each key of \<open>defaultOptions\<close>.\<close>

definition mergeOptions :: "Options option \<Rightarrow> Options" where
  "mergeOptions options =
     (case options of
        None \<Rightarrow>
          \<lparr>opt_completionsUrl = Some MARKPROMPT_COMPLETIONS_URL,
           opt_iDontKnowMessage = Some I_DONT_KNOW_MESSAGE,
           opt_model = Some DEFAULT_MODEL,
           opt_promptTemplate = None\<rparr>
      | Some opts \<Rightarrow>
          \<lparr>opt_completionsUrl = Some (or_default (opt_completionsUrl opts) MARKPROMPT_COMPLETIONS_URL),
           opt_iDontKnowMessage = Some (or_default (opt_iDontKnowMessage opts) I_DONT_KNOW_MESSAGE),
           opt_model = Some (or_default (opt_model opts) DEFAULT_MODEL),
           opt_promptTemplate = opt_promptTemplate opts\<rparr>)"

definition fallbackMessage :: "Options option \<Rightarrow> string" where
  "fallbackMessage options = or_empty (opt_iDontKnowMessage (mergeOptions options))"

text \<open>The request \<open>fetch\<close> is called with: the URL and the fields of the JSON body.\<close>

record Request =
  req_url :: string
  req_prompt :: string
  req_model :: string
  req_iDontKnowMessage :: string
  req_promptTemplate :: "string option"
  req_projectKey :: string

definition buildRequest :: "string \<Rightarrow> string \<Rightarrow> Options option \<Rightarrow> Request" where
  "buildRequest prompt projectKey options =
     (let merged = mergeOptions options in
      \<lparr>req_url = or_empty (opt_completionsUrl merged),
       req_prompt = prompt,
       req_model = or_empty (opt_model merged),
       req_iDontKnowMessage = or_empty (opt_iDontKnowMessage merged),
       req_promptTemplate =
         (case opt_promptTemplate merged of
            None \<Rightarrow> None
          | Some t \<Rightarrow> if t = [] then None else Some t),
       req_projectKey = projectKey\<rparr>)"

text \<open>
  The response body as the reader delivers it: the chunks, each already decoded to text
  by \<^verbatim>\<open>decoder.decode(value)\<close> on its own, and then either the end of the stream or a
  read that rejects.
\<close>

record Body =
  body_chunks :: "string list"
  body_error :: "js_exn option"

record Response =
  res_ok :: bool
  res_body :: "Body option"
  res_text :: "js_exn + string"

datatype fetch_result = FetchThrows js_exn | FetchResponse Response

text \<open>The calls to the three callbacks, in order.\<close>

datatype cb_event = AnswerChunk string | OnReferences json | OnError js_exn

record decoder =
  startText :: string
  didHandleHeader :: bool
  refs :: json
  events :: "cb_event list"

definition decoder_init :: decoder where
  "decoder_init = \<lparr>startText = [], didHandleHeader = False, refs = JArr [], events = []\<rparr>"

text \<open>
  One turn of the \<^verbatim>\<open>while (!done)\<close> loop on the decoded chunk \<open>chunkValue\<close>.
  \<open>jsonParse\<close> is \<^verbatim>\<open>JSON.parse\<close>, \<open>None\<close> when it throws. When the text includes the
  separator the split has at least two parts (lemma \<open>splitJS_two_parts\<close>), so
  \<^verbatim>\<open>parts[1]\<close> is a string.
\<close>

definition decodeStep :: "(string \<Rightarrow> json option) \<Rightarrow> string \<Rightarrow> decoder \<Rightarrow> decoder" where
  "decodeStep jsonParse chunkValue d =
     (if \<not> didHandleHeader d then
        let d1 = d\<lparr>startText := startText d @ chunkValue\<rparr> in
        if includesJS (startText d1) STREAM_SEPARATOR then
          (case splitJS STREAM_SEPARATOR (startText d1) of
             p0 # p1 # rest \<Rightarrow>
               let d2 = (case jsonParse p0 of
                           None \<Rightarrow> d1
                         | Some v \<Rightarrow> d1\<lparr>refs := v\<rparr>)
               in d2\<lparr>events := events d2 @ [AnswerChunk p1], didHandleHeader := True\<rparr>
           | _ \<Rightarrow> d1)
        else d1
      else d\<lparr>events := events d @ [AnswerChunk chunkValue]\<rparr>)"

text \<open>
  The whole loop over a body: every chunk, then the last read, whose value is undefined
  and decodes to the empty string; a rejected read throws out of the loop.
\<close>

definition readBody :: "(string \<Rightarrow> json option) \<Rightarrow> Body \<Rightarrow> js_exn + decoder" where
  "readBody jsonParse body =
     (let d = fold (decodeStep jsonParse) (body_chunks body) decoder_init in
      case body_error body of
        Some e \<Rightarrow> Inl e
      | None \<Rightarrow> Inr (decodeStep jsonParse [] d))"

definition readBodyEvents :: "(string \<Rightarrow> json option) \<Rightarrow> Body \<Rightarrow> cb_event list" where
  "readBodyEvents jsonParse body =
     events (fold (decodeStep jsonParse) (body_chunks body) decoder_init)"

text \<open>
  \<open>submitPrompt\<close>: \<open>Inl\<close> is the exception thrown for a missing project key; otherwise
  the result is the sequence of callback calls.
\<close>

definition submitPrompt ::
  "(Request \<Rightarrow> fetch_result) \<Rightarrow> (string \<Rightarrow> json option) \<Rightarrow> string \<Rightarrow> string \<Rightarrow>
   Options option \<Rightarrow> js_exn + cb_event list" where
  "submitPrompt fetch jsonParse prompt projectKey options =
     (if projectKey = [] then Inl (OtherError ''A projectKey is required.'')
      else if prompt = [] then Inr []
      else
        let idk = fallbackMessage options in
        case fetch (buildRequest prompt projectKey options) of
          FetchThrows e \<Rightarrow> Inr [AnswerChunk idk, OnError e]
        | FetchResponse res \<Rightarrow>
            (case (if res_ok res then res_body res else None) of
               None \<Rightarrow>
                 (case res_text res of
                    Inl e \<Rightarrow> Inr [AnswerChunk idk, OnError e]
                  | Inr text \<Rightarrow> Inr [AnswerChunk idk, OnError (OtherError text)])
             | Some body \<Rightarrow>
                 (case readBody jsonParse body of
                    Inl e \<Rightarrow>
                      Inr (readBodyEvents jsonParse body @ [AnswerChunk idk, OnError e])
                  | Inr d \<Rightarrow> Inr (events d @ [OnReferences (refs d)]))))"

text \<open>The request fails outright: \<open>fetch\<close> throws, or the response is not ok or has no body.\<close>

fun failsOutright :: "fetch_result \<Rightarrow> bool" where
  "failsOutright (FetchThrows e) = True"
| "failsOutright (FetchResponse res) = (\<not> res_ok res \<or> res_body res = None)"





text \<open>Concrete collaborators for the decoder: a parser that knows two headers, and a
  server that answers 401.\<close>

definition docs_header :: string where
  "docs_header = ''['' @ [CHR 0x22] @ ''docs/a.md'' @ [CHR 0x22] @ '']''"

definition sep_header :: string where
  "sep_header = ''['' @ [CHR 0x22] @ STREAM_SEPARATOR @ [CHR 0x22] @ '']''"

definition demoParse :: "string \<Rightarrow> json option" where
  "demoParse s =
     (if s = ''[]'' then Some (JArr [])
      else if s = docs_header then Some (JArr [JStr ''docs/a.md''])
      else if s = sep_header then Some (JArr [JStr STREAM_SEPARATOR])
      else None)"

definition unauthorizedFetch :: "Request \<Rightarrow> fetch_result" where
  "unauthorizedFetch req =
     FetchResponse \<lparr>res_ok = False, res_body = None, res_text = Inr ''Unauthorized''\<rparr>"

section \<open>Retrieval for a query (lib/completions.ts: storePrompt, updatePrompt, getMatchingSections)\<close>

text \<open>
  A thrown value of the engine: an \<open>ApiError(code, message)\<close>, or anything else, kept by
  its message.
\<close>

datatype api_exn = ApiError int string | Thrown string

datatype PromptNoResponseReason = no_sections | idk | api_error

type_synonym embedding = "real list"

record FileSectionReference =
  ref_file_path :: string
  ref_meta :: string

record FileSectionMatchResult =
  files_path :: string
  file_sections_content :: string
  file_sections_token_count :: nat
  section_meta :: string

text \<open>The row \<open>storePrompt\<close> inserts into \<^verbatim>\<open>query_stats\<close>; a key left out is \<open>None\<close>.\<close>

record query_meta =
  meta_references :: "FileSectionReference list option"
  meta_noResponseReason :: "PromptNoResponseReason option"

record query_row =
  q_project_id :: string
  q_prompt :: "string option"
  q_response :: "string option"
  q_embedding :: "embedding option"
  q_no_response :: "bool option"
  q_meta :: "query_meta option"
  q_processed_state :: "string option"

record query_update =
  u_response :: "string option"
  u_no_response :: "bool option"

record moderation =
  mod_results :: "bool list option"

record embedding_result =
  emb_error :: "string option"
  emb_total_tokens :: "int option"
  emb_data :: "embedding option"

record rpc_args =
  rpc_project_id :: string
  rpc_embedding :: embedding
  rpc_match_threshold :: real
  rpc_match_count :: real
  rpc_min_content_length :: nat

datatype model_type = chat_completions | completions

record llm_info =
  llm_vendor :: string
  llm_model_type :: model_type
  llm_model_value :: string

text \<open>The request body sent to the model provider (\<open>getPayload\<close>).\<close>

record payload =
  pl_model :: string
  pl_temperature :: real
  pl_top_p :: real
  pl_frequency_penalty :: real
  pl_presence_penalty :: real
  pl_max_tokens :: real
  pl_stream :: bool
  pl_n :: nat
  pl_messages :: "(string \<times> string) list option"
  pl_prompt :: "string option"

text \<open>The calls the engine makes to its collaborators, in order.\<close>

datatype engine_event =
    CreateModeration string "string option"
  | CreateEmbedding nat string "string option"
  | RecordProjectTokenCount string llm_info int string
  | MatchFileSections rpc_args "string option \<times> FileSectionMatchResult list option"
  | InsertQueryStat query_row
  | UpdateQueryStat string query_update
  | Track string
  | FetchCompletions string string payload

text \<open>
  \<open>storePrompt\<close> builds the row and inserts it; the result is the row (the insert is logged
  by the caller together with the id the database returns).
\<close>

definition storePrompt ::
  "string \<Rightarrow> string option \<Rightarrow> string option \<Rightarrow> embedding option \<Rightarrow>
   PromptNoResponseReason option \<Rightarrow> FileSectionReference list option \<Rightarrow> bool \<Rightarrow> query_row" where
  "storePrompt projectId prompt response embedding noResponseReason references redact =
     (let meta = \<lparr>meta_references =
                    (case references of
                       None \<Rightarrow> None
                     | Some rs \<Rightarrow> if length rs > 0 then Some rs else None),
                  meta_noResponseReason = noResponseReason\<rparr>
      in \<lparr>q_project_id = projectId,
          q_prompt = (if truthyStr prompt then prompt else None),
          q_response = (if truthyStr response then response else None),
          q_embedding = embedding,
          q_no_response = (case noResponseReason of None \<Rightarrow> None | Some r \<Rightarrow> Some True),
          q_meta = (if meta_references meta = None \<and> meta_noResponseReason meta = None
                    then None else Some meta),
          q_processed_state = (if redact then Some ''unprocessed'' else None)\<rparr>)"

definition updatePrompt :: "string option \<Rightarrow> PromptNoResponseReason option \<Rightarrow> query_update" where
  "updatePrompt response noResponseReason =
     \<lparr>u_response = (if truthyStr response then response else None),
      u_no_response = (case noResponseReason of None \<Rightarrow> None | Some r \<Rightarrow> Some True)\<rparr>"

text \<open>
  The collaborators of \<open>getMatchingSections\<close>. \<open>createEmbedding\<close> takes the number of the
  attempt, so that a retry can answer differently; \<open>errToString\<close> is the template
  literal \<^verbatim>\<open>${error}\<close>; \<open>match_file_sections\<close> is the remote procedure, its result
  the pair of \<open>error\<close> (its message) and \<open>data\<close>.
\<close>

record sections_env =
  createModeration :: "string \<Rightarrow> string option \<Rightarrow> api_exn + moderation option"
  createEmbedding :: "nat \<Rightarrow> string \<Rightarrow> string option \<Rightarrow> string \<Rightarrow> api_exn + embedding_result"
  recordProjectTokenCount :: "string \<Rightarrow> llm_info \<Rightarrow> int \<Rightarrow> string \<Rightarrow> api_exn option"
  match_file_sections :: "rpc_args \<Rightarrow> string option \<times> FileSectionMatchResult list option"
  stringToLLMInfo :: "string option \<Rightarrow> llm_info"
  errToString :: "api_exn \<Rightarrow> string"

text \<open>\<^verbatim>\<open>moderationResponse?.results?.[0]?.flagged\<close>\<close>

definition isFlagged :: "moderation option \<Rightarrow> bool" where
  "isFlagged r =
     (case r of
        None \<Rightarrow> False
      | Some m \<Rightarrow>
          (case mod_results m of
             None \<Rightarrow> False
           | Some [] \<Rightarrow> False
           | Some (f # fs) \<Rightarrow> f))"

text \<open>
  \<open>backOff f n k\<close>: the library's retry loop without its delays. It calls \<open>f\<close> with the
  attempt numbers \<open>k, k + 1, ...\<close>, stops at the first call that does not throw, and
  makes at most \<open>n + 1\<close> calls; the result comes with the attempts made.
\<close>

primrec backOff :: "(nat \<Rightarrow> api_exn + 'a) \<Rightarrow> nat \<Rightarrow> nat \<Rightarrow> (api_exn + 'a) \<times> nat list" where
  "backOff f 0 k = (f k, [k])"
| "backOff f (Suc n) k =
     (case f k of
        Inr v \<Rightarrow> (Inr v, [k])
      | Inl e \<Rightarrow> (case backOff f n (Suc k) of (r, ks) \<Rightarrow> (r, k # ks)))"

definition numOfAttempts :: nat where
  "numOfAttempts = 10"

definition embeddingErrorMessage :: "sections_env \<Rightarrow> string \<Rightarrow> api_exn \<Rightarrow> string" where
  "embeddingErrorMessage env verbatimPrompt error =
     ''Error creating embedding for prompt '' @ [CHR 0x27] @ verbatimPrompt @ [CHR 0x27] @ '': '' @
       errToString env error"

text \<open>The \<^verbatim>\<open>try\<close> block of \<open>getMatchingSections\<close>, whose \<^verbatim>\<open>catch\<close> wraps every exception.\<close>

definition createEmbeddingWithRetry ::
  "sections_env \<Rightarrow> string \<Rightarrow> string \<Rightarrow> string \<Rightarrow> string option \<Rightarrow>
   (api_exn + embedding_result) \<times> engine_event list" where
  "createEmbeddingWithRetry env sanitizedQuery verbatimPrompt projectId byoOpenAIKey =
     (let modelId = ''text-embedding-ada-002'';
          wrap = (\<lambda>error. ApiError 400 (embeddingErrorMessage env verbatimPrompt error))
      in
      case backOff (\<lambda>k. createEmbedding env k sanitizedQuery byoOpenAIKey modelId)
             (numOfAttempts - 1) 0 of
        (r, attempts) \<Rightarrow>
          let ev = map (\<lambda>k. CreateEmbedding k sanitizedQuery byoOpenAIKey) attempts in
          (case r of
             Inl e \<Rightarrow> (Inl (wrap e), ev)
           | Inr embeddingResult \<Rightarrow>
               (case emb_error embeddingResult of
                  Some message \<Rightarrow> (Inl (wrap (ApiError 400 message)), ev)
                | None \<Rightarrow>
                    if \<not> truthyStr byoOpenAIKey then
                      (case emb_total_tokens embeddingResult of
                         None \<Rightarrow> (Inl (wrap (Thrown ''TypeError'')), ev)
                       | Some total_tokens \<Rightarrow>
                           let embeddingModelInfo = stringToLLMInfo env (Some modelId);
                               ev2 = ev @ [RecordProjectTokenCount projectId embeddingModelInfo
                                             total_tokens ''sections'']
                           in
                           (case recordProjectTokenCount env projectId embeddingModelInfo
                                   total_tokens ''sections'' of
                              Some e \<Rightarrow> (Inl (wrap e), ev2)
                            | None \<Rightarrow> (Inr embeddingResult, ev2)))
                    else (Inr embeddingResult, ev))))"

definition orNum :: "real option \<Rightarrow> real \<Rightarrow> real" where
  "orNum v d = (case v of None \<Rightarrow> d | Some x \<Rightarrow> if x = 0 then d else x)"

definition getMatchingSections ::
  "sections_env \<Rightarrow> string \<Rightarrow> string \<Rightarrow> real option \<Rightarrow> real option \<Rightarrow> string \<Rightarrow> string option \<Rightarrow>
   (api_exn + FileSectionMatchResult list \<times> embedding) \<times> engine_event list" where
  "getMatchingSections env sanitizedQuery verbatimPrompt sectionsMatchThreshold sectionsMatchCount
     projectId byoOpenAIKey =
     (let ev1 = [CreateModeration sanitizedQuery byoOpenAIKey] in
      case createModeration env sanitizedQuery byoOpenAIKey of
        Inl e \<Rightarrow> (Inl e, ev1)
      | Inr moderationResponse \<Rightarrow>
          if isFlagged moderationResponse then (Inl (ApiError 400 ''Flagged content''), ev1)
          else
            (case createEmbeddingWithRetry env sanitizedQuery verbatimPrompt projectId
                    byoOpenAIKey of
               (Inl e, ev2) \<Rightarrow> (Inl e, ev1 @ ev2)
             | (Inr embeddingResult, ev2) \<Rightarrow>
                 (case emb_data embeddingResult of
                    None \<Rightarrow>
                      (Inl (ApiError 400 (''Error creating embedding for prompt '' @ [CHR 0x27] @
                              verbatimPrompt @ [CHR 0x27])), ev1 @ ev2)
                  | Some promptEmbedding \<Rightarrow>
                      let args = \<lparr>rpc_project_id = projectId,
                                  rpc_embedding = promptEmbedding,
                                  rpc_match_threshold = orNum sectionsMatchThreshold 0.5,
                                  rpc_match_count = orNum sectionsMatchCount 10,
                                  rpc_min_content_length = 30\<rparr>;
                          r = match_file_sections env args;
                          ev3 = ev1 @ ev2 @ [MatchFileSections args r]
                      in
                      (case fst r of
                         Some message \<Rightarrow>
                           (Inl (ApiError 400 (''Error loading embeddings: '' @ message)), ev3)
                       | None \<Rightarrow>
                           (case snd r of
                              None \<Rightarrow> (Inl (ApiError 400 ''No relevant sections found''), ev3)
                            | Some fileSections \<Rightarrow>
                                if length fileSections = 0
                                then (Inl (ApiError 400 ''No relevant sections found''), ev3)
                                else (Inr (fileSections, promptEmbedding), ev3))))))"

section \<open>Completions endpoint (src/pages/api/v1/openai/completions/[project].ts)\<close>

subsection \<open>Values of the request body\<close>

text \<open>
  The parsed body \<open>params\<close> is an object: a map from keys to JSON values, a missing key
  being \<open>undefined\<close>. A field the handler casts to a string or uses as a number is read
  with \<open>paramStr\<close> or \<open>paramNum\<close>; a value of another JSON type there is outside the
  handler's input type and is read as missing.
\<close>

type_synonym params = "string \<Rightarrow> json option"

definition paramStr :: "params \<Rightarrow> string \<Rightarrow> string option" where
  "paramStr ps key = (case ps key of Some (JStr v) \<Rightarrow> Some v | _ \<Rightarrow> None)"

definition paramNum :: "params \<Rightarrow> string \<Rightarrow> real option" where
  "paramNum ps key = (case ps key of Some (JNum v) \<Rightarrow> Some v | _ \<Rightarrow> None)"

text \<open>\<^verbatim>\<open>a || d\<close> for a string: the empty string and \<open>undefined\<close> give the default.\<close>

definition orStr :: "string option \<Rightarrow> string \<Rightarrow> string" where
  "orStr v d = (case v of None \<Rightarrow> d | Some x \<Rightarrow> if x = [] then d else x)"

fun isFalsy :: "json option \<Rightarrow> bool" where
  "isFalsy (Some (JStr v)) = (v = ''false'' \<or> v = ''0'')"
| "isFalsy (Some (JNum v)) = (v = 0)"
| "isFalsy (Some (JBool v)) = (v = False)"
| "isFalsy _ = False"

fun isTruthy :: "json option \<Rightarrow> bool" where
  "isTruthy (Some (JStr v)) = (v = ''true'' \<or> v = ''1'')"
| "isTruthy (Some (JNum v)) = (v = 1)"
| "isTruthy (Some (JBool v)) = (v = True)"
| "isTruthy _ = False"

text \<open>\<^verbatim>\<open>!!value\<close>\<close>

fun toBoolean :: "json option \<Rightarrow> bool" where
  "toBoolean None = False"
| "toBoolean (Some JNull) = False"
| "toBoolean (Some (JBool v)) = v"
| "toBoolean (Some (JNum v)) = (v \<noteq> 0)"
| "toBoolean (Some (JStr v)) = (v \<noteq> [])"
| "toBoolean (Some (JArr v)) = True"
| "toBoolean (Some (JObj v)) = True"

text \<open>Property access and \<^verbatim>\<open>[0]\<close> on a JSON value; on \<open>undefined\<close> and \<open>null\<close> they throw.\<close>

fun getProp :: "string \<Rightarrow> json option \<Rightarrow> api_exn + json option" where
  "getProp key None = Inl (Thrown ''TypeError'')"
| "getProp key (Some JNull) = Inl (Thrown ''TypeError'')"
| "getProp key (Some (JObj kvs)) = Inr (map_of kvs key)"
| "getProp key (Some v) = Inr None"

fun getIndex0 :: "json option \<Rightarrow> api_exn + json option" where
  "getIndex0 None = Inl (Thrown ''TypeError'')"
| "getIndex0 (Some JNull) = Inl (Thrown ''TypeError'')"
| "getIndex0 (Some (JArr [])) = Inr None"
| "getIndex0 (Some (JArr (v # vs))) = Inr (Some v)"
| "getIndex0 (Some (JObj kvs)) = Inr (map_of kvs ''0'')"
| "getIndex0 (Some (JStr [])) = Inr None"
| "getIndex0 (Some (JStr (c # cs))) = Inr (Some (JStr [c]))"
| "getIndex0 (Some v) = Inr None"

definition bindE :: "api_exn + 'a \<Rightarrow> ('a \<Rightarrow> api_exn + 'b) \<Rightarrow> api_exn + 'b" where
  "bindE r f = (case r of Inl e \<Rightarrow> Inl e | Inr v \<Rightarrow> f v)"

subsection \<open>String helpers\<close>

definition newline :: char where
  "newline = CHR 0x0A"

definition isWhiteSpace :: "char \<Rightarrow> bool" where
  "isWhiteSpace c = (c \<in> {CHR 0x09, CHR 0x0A, CHR 0x0B, CHR 0x0C, CHR 0x0D, CHR 0x20, CHR 0xA0})"

definition trimJS :: "string \<Rightarrow> string" where
  "trimJS v = rev (dropWhile isWhiteSpace (rev (dropWhile isWhiteSpace v)))"

text \<open>\<^verbatim>\<open>replaceAll('\n', ' ')\<close> and \<^verbatim>\<open>replace(/\n/g, ' ')\<close>\<close>

definition newlinesToSpaces :: "string \<Rightarrow> string" where
  "newlinesToSpaces v = map (\<lambda>c. if c = newline then CHR 0x20 else c) v"

definition sanitizeQuery :: "string \<Rightarrow> string" where
  "sanitizeQuery prompt = newlinesToSpaces (trimJS prompt)"

definition prepareSectionText :: "string \<Rightarrow> string" where
  "prepareSectionText v = trimJS (newlinesToSpaces v)"

definition isIDontKnowResponse :: "string \<Rightarrow> string \<Rightarrow> bool" where
  "isIDontKnowResponse responseText iDontKnowMessage =
     (responseText = [] \<or> suffix iDontKnowMessage responseText)"

subsection \<open>The handler's collaborators\<close>

datatype InsightsType = basic | advanced

text \<open>What the provider answered: the status flag and the three ways the handler reads
  the body (as text, as JSON, or as the events the event-stream parser dispatches).\<close>

datatype sse_event = Event string | ReconnectInterval

record provider_response =
  pr_ok :: bool
  pr_text :: string
  pr_json :: "json option"
  pr_events :: "sse_event list"

record handler_env =
  sections :: sections_env
  MAX_PROMPT_LENGTH :: nat
  I_DONT_KNOW :: string
  CONTEXT_TOKENS_CUTOFF :: nat
  DEFAULT_PROMPT_TEMPLATE :: string
  modelConfigFields :: "string list"
  OPENAI_API_KEY :: "string option"
  checkCompletionsRateLimits :: "string \<Rightarrow> bool"
  isRequestFromMarkprompt :: "string option \<Rightarrow> bool"
  getTeamTierInfo :: "string \<Rightarrow> string option"
  canUseCustomModelConfig :: "string \<Rightarrow> bool"
  getAccessibleInsightsType :: "string \<Rightarrow> InsightsType option"
  getProjectConfigData :: "string \<Rightarrow> string option"
  insertQueryStat :: "query_row \<Rightarrow> string option"
  buildSectionReferenceFromMatchResult :: "FileSectionMatchResult \<Rightarrow> FileSectionReference"
  getCompletionsUrl :: "llm_info \<Rightarrow> string"
  getCompletionsResponseText :: "json \<Rightarrow> llm_info \<Rightarrow> string"
  safeParseInt :: "json option \<Rightarrow> int \<Rightarrow> int"
  fetchCompletions :: "string \<Rightarrow> string \<Rightarrow> payload \<Rightarrow> api_exn + provider_response"
  strReplace :: "string \<Rightarrow> string \<Rightarrow> string \<Rightarrow> string"
  stripIndent :: "string \<Rightarrow> string"
  JSON_parse :: "string \<Rightarrow> json option"
  stringifyPaths :: "string list \<Rightarrow> string"
  stringifyError :: "api_exn \<Rightarrow> string"

subsection \<open>The request and the response\<close>

record NextRequest =
  rq_method :: "string option"
  rq_pathname :: string
  rq_project :: "string option"
  rq_origin :: "string option"
  rq_json :: "params option"

record completion_result =
  cr_text :: string
  cr_references :: "FileSectionReference list"
  cr_responseId :: "string option"
  cr_fullPrompt :: string

datatype response_body =
    TextBody string
  | JsonBody completion_result
  | StreamBody "string list" bool

record header_data =
  hd_references :: "FileSectionReference list"
  hd_promptId :: "string option"

record http_response =
  rs_status :: int
  rs_body :: response_body
  rs_headers :: "header_data option"

definition getHeaders :: "FileSectionReference list \<Rightarrow> string option \<Rightarrow> header_data" where
  "getHeaders references promptId = \<lparr>hd_references = references, hd_promptId = promptId\<rparr>"

subsection \<open>Helpers of the handler\<close>

definition getPayload ::
  "string \<Rightarrow> llm_info \<Rightarrow> real \<Rightarrow> real \<Rightarrow> real \<Rightarrow> real \<Rightarrow> real \<Rightarrow> bool \<Rightarrow> payload" where
  "getPayload prompt model temperature topP frequencyPenalty presencePenalty maxTokens stream =
     (let pl = \<lparr>pl_model = llm_model_value model,
                 pl_temperature = temperature,
                 pl_top_p = topP,
                 pl_frequency_penalty = frequencyPenalty,
                 pl_presence_penalty = presencePenalty,
                 pl_max_tokens = maxTokens,
                 pl_stream = stream,
                 pl_n = 1,
                 pl_messages = None,
                 pl_prompt = None\<rparr>
      in case llm_model_type model of
           chat_completions \<Rightarrow> pl\<lparr>pl_messages := Some [(''user'', prompt)]\<rparr>
         | completions \<Rightarrow> pl\<lparr>pl_prompt := Some prompt\<rparr>)"

definition getChunkText :: "json option \<Rightarrow> llm_info \<Rightarrow> api_exn + json option" where
  "getChunkText response model =
     (case llm_model_type model of
        chat_completions \<Rightarrow>
          bindE (bindE (bindE (getProp ''choices'' response) getIndex0) (getProp ''delta''))
            (getProp ''content'')
      | completions \<Rightarrow>
          bindE (bindE (getProp ''choices'' response) getIndex0) (getProp ''text''))"

text \<open>
  \<open>_storePrompt\<close>: the row it has \<open>storePrompt\<close> insert. \<open>insightsType\<close> gates the response
  and the references, \<open>advanced\<close> gates the embedding.
\<close>

definition storePromptRow ::
  "string \<Rightarrow> string \<Rightarrow> string option \<Rightarrow> embedding option \<Rightarrow> PromptNoResponseReason option \<Rightarrow>
   FileSectionReference list \<Rightarrow> InsightsType option \<Rightarrow> bool \<Rightarrow> bool \<Rightarrow> query_row" where
  "storePromptRow projectId prompt responseText promptEmbedding errorReason references insightsType
     excludeData redact =
     (if excludeData
      then storePrompt projectId None None None errorReason None redact
      else storePrompt projectId (Some prompt)
             (if insightsType \<noteq> None then responseText else None)
             (if insightsType = Some advanced then promptEmbedding else None)
             errorReason
             (if insightsType \<noteq> None then Some references else None)
             redact)"

definition contextIntro :: string where
  "contextIntro = ''Here is some context which might contain valuable information to answer the question. It is in the form of sections preceded by a section id:''"

definition buildFullPrompt ::
  "handler_env \<Rightarrow> string \<Rightarrow> string \<Rightarrow> string \<Rightarrow> string \<Rightarrow> string \<Rightarrow> string \<Rightarrow> string \<Rightarrow>
   bool \<Rightarrow> bool \<Rightarrow> string" where
  "buildFullPrompt env template context prompt iDontKnowMessage contextTemplateKeyword
     promptTemplateKeyword iDontKnowTemplateKeyword doNotInjectContext doNotInjectPrompt =
     (let t0 = strReplace env template iDontKnowTemplateKeyword
                 (if iDontKnowMessage = [] then I_DONT_KNOW env else iDontKnowMessage);
          t1 = (if includesJS template contextTemplateKeyword
                then strReplace env t0 contextTemplateKeyword context
                else if \<not> doNotInjectContext
                then contextIntro @ [newline, newline] @ ''---'' @ [newline, newline] @ context @
                       [newline, newline] @ ''---'' @ [newline, newline] @ t0
                else t0);
          t2 = (if includesJS template promptTemplateKeyword
                then strReplace env t1 promptTemplateKeyword prompt
                else if \<not> doNotInjectPrompt
                then t1 @ [newline, newline] @ ''Prompt: '' @ prompt @ [newline]
                else t1)
      in stripIndent env t2)"

text \<open>The loop over the retrieved sections, up to the token cutoff.\<close>

fun assembleContext ::
  "handler_env \<Rightarrow> FileSectionMatchResult list \<Rightarrow> nat \<Rightarrow> string \<Rightarrow> FileSectionReference list \<Rightarrow>
   string \<times> FileSectionReference list" where
  "assembleContext env [] numTokens contextText references = (contextText, references)"
| "assembleContext env (section # rest) numTokens contextText references =
     (let numTokens' = numTokens + file_sections_token_count section in
      if numTokens' \<ge> CONTEXT_TOKENS_CUTOFF env then (contextText, references)
      else assembleContext env rest numTokens'
             (contextText @ ''Section id: '' @ files_path section @ [newline, newline] @
                prepareSectionText (file_sections_content section) @ [newline] @ ''---'' @ [newline])
             (references @ [buildSectionReferenceFromMatchResult env section]))"

subsection \<open>The streamed body\<close>

text \<open>
  The variables the stream's \<open>onParse\<close> closes over, and the stream controller: the
  chunks enqueued so far and whether the stream has been put in the errored state.
\<close>

record stream_state =
  st_counter :: nat
  st_responseText :: string
  st_didSendHeader :: bool
  st_enqueued :: "string list"
  st_errored :: bool

definition stream_init :: stream_state where
  "stream_init = \<lparr>st_counter = 0, st_responseText = [], st_didSendHeader = False,
                   st_enqueued = [], st_errored = False\<rparr>"

text \<open>\<^verbatim>\<open>controller.enqueue\<close> throws once the stream is errored; \<^verbatim>\<open>controller.error\<close> on an
  errored stream does nothing.\<close>

definition enqueue :: "string \<Rightarrow> stream_state \<Rightarrow> api_exn + stream_state" where
  "enqueue chunk st =
     (if st_errored st then Inl (Thrown ''TypeError'')
      else Inr (st\<lparr>st_enqueued := st_enqueued st @ [chunk]\<rparr>))"

definition controllerError :: "stream_state \<Rightarrow> stream_state" where
  "controllerError st = st\<lparr>st_errored := True\<rparr>"

text \<open>
  The text of a provider fragment as \<open>getChunkText\<close> returns it: absent (\<open>undefined\<close>),
  \<open>null\<close>, a string, or a value of another type. On a value of another type
  \<^verbatim>\<open>text?.match\<close> is not a function and the call throws (an array would first be
  appended to \<open>responseText\<close>; the provider sends none).
\<close>

datatype fragment = Absent | Null | Text string | NotText

fun fragmentOf :: "json option \<Rightarrow> fragment" where
  "fragmentOf None = Absent"
| "fragmentOf (Some JNull) = Null"
| "fragmentOf (Some (JStr v)) = Text v"
| "fragmentOf (Some v) = NotText"

text \<open>\<^verbatim>\<open>(text?.match(/\n/) || []).length\<close> is not zero\<close>

fun matchesNewline :: "fragment \<Rightarrow> bool" where
  "matchesNewline (Text v) = (newline \<in> set v)"
| "matchesNewline f = False"

text \<open>\<^verbatim>\<open>encoder.encode(text)\<close>, as the text it encodes\<close>

fun encodeText :: "fragment \<Rightarrow> string" where
  "encodeText (Text v) = v"
| "encodeText Null = ''null''"
| "encodeText f = []"

text \<open>\<^verbatim>\<open>if (text?.length > 0) responseText += text\<close>\<close>

fun appendText :: "fragment \<Rightarrow> string \<Rightarrow> string" where
  "appendText (Text v) acc = acc @ v"
| "appendText f acc = acc"

definition sendHeader :: "handler_env \<Rightarrow> string list \<Rightarrow> stream_state \<Rightarrow> api_exn + stream_state" where
  "sendHeader env referencePaths st =
     (if \<not> st_didSendHeader st then
        (case enqueue (stringifyPaths env referencePaths @ STREAM_SEPARATOR) st of
           Inl e \<Rightarrow> Inl e
         | Inr st' \<Rightarrow> Inr (st'\<lparr>st_didSendHeader := True\<rparr>))
      else Inr st)"

definition forwardFragment :: "fragment \<Rightarrow> stream_state \<Rightarrow> stream_state" where
  "forwardFragment text st =
     (let st2 = st\<lparr>st_responseText := appendText text (st_responseText st)\<rparr> in
      if st_counter st2 < 2 \<and> matchesNewline text then st2
      else (case enqueue (encodeText text) st2 of
              Inl e \<Rightarrow> controllerError st2
            | Inr st3 \<Rightarrow> st3\<lparr>st_counter := st_counter st3 + 1\<rparr>))"

definition onParse ::
  "handler_env \<Rightarrow> llm_info \<Rightarrow> string list \<Rightarrow> sse_event \<Rightarrow> stream_state \<Rightarrow> stream_state" where
  "onParse env model referencePaths event st =
     (case event of
        ReconnectInterval \<Rightarrow> st
      | Event data \<Rightarrow>
          if data = ''[DONE]'' then st
          else
            (case sendHeader env referencePaths st of
               Inl e \<Rightarrow> controllerError st
             | Inr st1 \<Rightarrow>
                 (case JSON_parse env data of
                    None \<Rightarrow> controllerError st1
                  | Some json \<Rightarrow>
                      (case getChunkText (Some json) model of
                         Inl e \<Rightarrow> controllerError st1
                       | Inr text \<Rightarrow>
                           (case fragmentOf text of
                              NotText \<Rightarrow> controllerError st1
                            | frag \<Rightarrow> forwardFragment frag st1)))))"


subsection \<open>The handler\<close>

text \<open>What the handler has read from the request when it reaches retrieval.\<close>

record parsed =
  pa_params :: params
  pa_prompt :: string
  pa_iDontKnowMessage :: string
  pa_stream :: bool
  pa_excludeFromInsights :: bool
  pa_redact :: bool
  pa_projectId :: string
  pa_insightsType :: "InsightsType option"
  pa_modelInfo :: llm_info
  pa_byoOpenAIKey :: "string option"

definition textResponse :: "string \<Rightarrow> int \<Rightarrow> http_response" where
  "textResponse text code = \<lparr>rs_status = code, rs_body = TextBody text, rs_headers = None\<rparr>"

text \<open>
  \<^verbatim>\<open>(params.prompt as string)?.substring(0, MAX_PROMPT_LENGTH)\<close>: \<open>undefined\<close> for a missing
  or null prompt, a \<open>TypeError\<close> for a value that has no \<open>substring\<close>.
\<close>

definition readPrompt :: "handler_env \<Rightarrow> params \<Rightarrow> api_exn + string option" where
  "readPrompt env ps =
     (case ps ''prompt'' of
        None \<Rightarrow> Inr None
      | Some JNull \<Rightarrow> Inr None
      | Some (JStr v) \<Rightarrow> Inr (Some (take (MAX_PROMPT_LENGTH env) v))
      | Some v \<Rightarrow> Inl (Thrown ''TypeError''))"

definition clearModelConfig :: "handler_env \<Rightarrow> params \<Rightarrow> params" where
  "clearModelConfig env ps = fold (\<lambda>field acc. acc(field := None)) (modelConfigFields env) ps"

text \<open>From \<^verbatim>\<open>req.json()\<close> to the project configuration: an exception, an early
  response, or the values read.\<close>

definition parseRequest :: "handler_env \<Rightarrow> NextRequest \<Rightarrow> api_exn + (http_response + parsed)" where
  "parseRequest env req =
     (case rq_json req of
        None \<Rightarrow> Inl (Thrown ''SyntaxError'')
      | Some ps \<Rightarrow>
          (case readPrompt env ps of
             Inl e \<Rightarrow> Inl e
           | Inr prompt \<Rightarrow>
               let iDontKnowMessage =
                     orStr (paramStr ps ''i_dont_know_message'')
                       (orStr (paramStr ps ''iDontKnowMessage'') (I_DONT_KNOW env));
                   stream = (if isFalsy (ps ''stream'') then False else True);
                   excludeFromInsights = (if isTruthy (ps ''excludeFromInsights'') then True else False);
                   redact = (if isTruthy (ps ''redact'') then True else False);
                   lastPathComponent = last (splitJS ''/'' (rq_pathname req));
                   projectIdParam = (if lastPathComponent = ''completions''
                                     then rq_project req
                                     else Some (last (splitJS ''/'' (rq_pathname req))))
               in
               if \<not> truthyStr projectIdParam then Inr (Inl (textResponse ''Project not found'' 400))
               else if \<not> truthyStr prompt then Inr (Inl (textResponse ''No prompt provided'' 400))
               else
                 let projectId = or_empty projectIdParam in
                 if \<not> checkCompletionsRateLimits env projectId
                 then Inr (Inl (textResponse ''Too many requests'' 429))
                 else
                   let teamTierInfo = getTeamTierInfo env projectId;
                       fromMarkprompt = isRequestFromMarkprompt env (rq_origin req);
                       ps' = (if fromMarkprompt then ps
                              else (case teamTierInfo of
                                      None \<Rightarrow> clearModelConfig env ps
                                    | Some tier \<Rightarrow>
                                        if \<not> canUseCustomModelConfig env tier
                                        then clearModelConfig env ps else ps));
                       insightsType = (if fromMarkprompt then Some advanced
                                       else (case teamTierInfo of
                                               None \<Rightarrow> None
                                             | Some tier \<Rightarrow> getAccessibleInsightsType env tier))
                   in Inr (Inr \<lparr>pa_params = ps',
                                pa_prompt = or_empty prompt,
                                pa_iDontKnowMessage = iDontKnowMessage,
                                pa_stream = stream,
                                pa_excludeFromInsights = excludeFromInsights,
                                pa_redact = redact,
                                pa_projectId = projectId,
                                pa_insightsType = insightsType,
                                pa_modelInfo = stringToLLMInfo (sections env) (paramStr ps' ''model''),
                                pa_byoOpenAIKey = getProjectConfigData env projectId\<rparr>)))"

text \<open>\<open>_storePrompt\<close> followed by the insert: the event and the id of the new row.\<close>

definition storeAndLog ::
  "handler_env \<Rightarrow> parsed \<Rightarrow> string option \<Rightarrow> embedding option \<Rightarrow> PromptNoResponseReason option \<Rightarrow>
   FileSectionReference list \<Rightarrow> string option \<times> engine_event list" where
  "storeAndLog env pa responseText promptEmbedding errorReason references =
     (let row = storePromptRow (pa_projectId pa) (pa_prompt pa) responseText promptEmbedding
                  errorReason references (pa_insightsType pa) (pa_excludeFromInsights pa)
                  (pa_redact pa)
      in (insertQueryStat env row, [InsertQueryStat row]))"

text \<open>The \<^verbatim>\<open>catch\<close> around \<open>getMatchingSections\<close>.\<close>

definition sectionsFailed ::
  "handler_env \<Rightarrow> parsed \<Rightarrow> api_exn \<Rightarrow> http_response \<times> engine_event list" where
  "sectionsFailed env pa e =
     (case storeAndLog env pa None None (Some no_sections) [] of
        (promptId, ev) \<Rightarrow>
          let headers = getHeaders [] promptId in
          (case e of
             ApiError code message \<Rightarrow>
               (\<lparr>rs_status = code, rs_body = TextBody message, rs_headers = Some headers\<rparr>, ev)
           | Thrown message \<Rightarrow>
               (\<lparr>rs_status = 400, rs_body = TextBody (errToString (sections env) e),
                 rs_headers = Some headers\<rparr>, ev)))"

text \<open>The non-streaming delivery (\<^verbatim>\<open>if (!stream) { ... }\<close>).\<close>

definition deliverJson ::
  "handler_env \<Rightarrow> parsed \<Rightarrow> provider_response \<Rightarrow> string \<Rightarrow> embedding option \<Rightarrow>
   FileSectionReference list \<Rightarrow> (api_exn + http_response) \<times> engine_event list" where
  "deliverJson env pa res fullPrompt promptEmbedding references =
     (if \<not> pr_ok res then
        (case storeAndLog env pa None promptEmbedding (Some api_error) references of
           (promptId, ev) \<Rightarrow>
             (Inr \<lparr>rs_status = 400,
                   rs_body = TextBody (''Unable to retrieve completions response: '' @ pr_text res),
                   rs_headers = Some (getHeaders references promptId)\<rparr>, ev))
      else
        (case pr_json res of
           None \<Rightarrow> (Inl (Thrown ''SyntaxError''), [])
         | Some json \<Rightarrow>
             (case bindE (getProp ''usage'' (Some json)) (getProp ''total_tokens'') of
                Inl e \<Rightarrow> (Inl e, [])
              | Inr total_tokens \<Rightarrow>
                  let tokenCount = safeParseInt env total_tokens 0;
                      ev1 = [RecordProjectTokenCount (pa_projectId pa) (pa_modelInfo pa) tokenCount
                               ''completions'']
                  in
                  (case recordProjectTokenCount (sections env) (pa_projectId pa) (pa_modelInfo pa)
                          tokenCount ''completions'' of
                     Some e \<Rightarrow> (Inl e, ev1)
                   | None \<Rightarrow>
                       let text = getCompletionsResponseText env json (pa_modelInfo pa);
                           reason = (if isIDontKnowResponse text (pa_iDontKnowMessage pa)
                                     then Some idk else None)
                       in
                       (case storeAndLog env pa (Some text) promptEmbedding reason references of
                          (promptId, ev2) \<Rightarrow>
                            (Inr \<lparr>rs_status = 200,
                                  rs_body = JsonBody \<lparr>cr_text = text,
                                                      cr_references = references,
                                                      cr_responseId = promptId,
                                                      cr_fullPrompt = fullPrompt\<rparr>,
                                  rs_headers = Some (getHeaders references promptId)\<rparr>,
                             ev1 @ ev2))))))"

text \<open>
  The streaming delivery: the placeholder row, the stream's \<open>start\<close> run to its end over
  the provider's events, and the response with the stream as its body. The status
  is the default of \<^verbatim>\<open>new Response(readableStream, { headers })\<close>.
\<close>

definition deliverStream ::
  "handler_env \<Rightarrow> parsed \<Rightarrow> provider_response \<Rightarrow> string \<Rightarrow> embedding option \<Rightarrow>
   FileSectionReference list \<Rightarrow> http_response \<times> engine_event list" where
  "deliverStream env pa res fullPrompt promptEmbedding references =
     (case storeAndLog env pa (Some []) promptEmbedding None references of
        (promptId, ev1) \<Rightarrow>
          let referencePaths = map ref_file_path references;
              st = fold (onParse env (pa_modelInfo pa) referencePaths) (pr_events res) stream_init;
              allText = fullPrompt @ st_responseText st;
              estimatedTokenCount = int ((length allText + 2) div 4);
              metered = \<not> truthyStr (pa_byoOpenAIKey pa);
              ev2 = (if metered
                     then [RecordProjectTokenCount (pa_projectId pa) (pa_modelInfo pa)
                             estimatedTokenCount ''completions'']
                     else []);
              thrown = (if metered
                        then recordProjectTokenCount (sections env) (pa_projectId pa)
                               (pa_modelInfo pa) estimatedTokenCount ''completions''
                        else None);
              ev3 = (if thrown = None \<and> truthyStr promptId
                     then [UpdateQueryStat (or_empty promptId)
                             (updatePrompt (Some (st_responseText st))
                                (if isIDontKnowResponse (st_responseText st) (pa_iDontKnowMessage pa)
                                 then Some idk else None))]
                     else [])
          in (\<lparr>rs_status = 200,
               rs_body = StreamBody (st_enqueued st) (st_errored st \<or> thrown \<noteq> None),
               rs_headers = Some (getHeaders references promptId)\<rparr>,
              ev1 @ ev2 @ ev3))"

text \<open>From the retrieved sections to the provider's answer.\<close>

definition answerQuery ::
  "handler_env \<Rightarrow> parsed \<Rightarrow> FileSectionMatchResult list \<Rightarrow> embedding \<Rightarrow>
   (api_exn + http_response) \<times> engine_event list" where
  "answerQuery env pa fileSections promptEmbedding =
     (let ps = pa_params pa;
          sanitizedQuery = sanitizeQuery (pa_prompt pa);
          ev0 = [Track (pa_projectId pa)]
      in
      case assembleContext env fileSections 0 [] [] of
        (contextText, references) \<Rightarrow>
          let fullPrompt =
                buildFullPrompt env
                  (orStr (paramStr ps ''promptTemplate'') (DEFAULT_PROMPT_TEMPLATE env))
                  contextText sanitizedQuery (pa_iDontKnowMessage pa)
                  (orStr (paramStr ps ''contextTag'') ''{{CONTEXT}}'')
                  (orStr (paramStr ps ''promptTag'') ''{{PROMPT}}'')
                  (orStr (paramStr ps ''idkTag'') ''{{I_DONT_KNOW}}'')
                  (toBoolean (ps ''doNotInjectContext''))
                  (toBoolean (ps ''doNotInjectPrompt''));
              pl = getPayload fullPrompt (pa_modelInfo pa)
                     (orNum (paramNum ps ''temperature'') 0.1)
                     (orNum (paramNum ps ''topP'') 1)
                     (orNum (paramNum ps ''frequencyPenalty'') 0)
                     (orNum (paramNum ps ''presencePenalty'') 0)
                     (orNum (paramNum ps ''maxTokens'') 500)
                     (pa_stream pa);
              url = getCompletionsUrl env (pa_modelInfo pa);
              bearer = (if truthyStr (pa_byoOpenAIKey pa) then or_empty (pa_byoOpenAIKey pa)
                        else or_empty (OPENAI_API_KEY env));
              ev1 = ev0 @ [FetchCompletions url bearer pl]
          in
          (case fetchCompletions env url bearer pl of
             Inl e \<Rightarrow> (Inl e, ev1)
           | Inr res \<Rightarrow>
               if \<not> pa_stream pa then
                 (case deliverJson env pa res fullPrompt (Some promptEmbedding) references of
                    (r, ev) \<Rightarrow> (r, ev1 @ ev))
               else
                 (case deliverStream env pa res fullPrompt (Some promptEmbedding) references of
                    (r, ev) \<Rightarrow> (Inr r, ev1 @ ev))))"

text \<open>The body of the handler's \<^verbatim>\<open>try\<close>.\<close>

definition handlerBody ::
  "handler_env \<Rightarrow> NextRequest \<Rightarrow> (api_exn + http_response) \<times> engine_event list" where
  "handlerBody env req =
     (case parseRequest env req of
        Inl e \<Rightarrow> (Inl e, [])
      | Inr (Inl early) \<Rightarrow> (Inr early, [])
      | Inr (Inr pa) \<Rightarrow>
          (case getMatchingSections (sections env) (sanitizeQuery (pa_prompt pa)) (pa_prompt pa)
                  (paramNum (pa_params pa) ''sectionsMatchThreshold'')
                  (paramNum (pa_params pa) ''sectionsMatchCount'')
                  (pa_projectId pa) (pa_byoOpenAIKey pa) of
             (Inl e, ev) \<Rightarrow>
               (case sectionsFailed env pa e of (r, ev') \<Rightarrow> (Inr r, ev @ ev'))
           | (Inr (fileSections, promptEmbedding), ev) \<Rightarrow>
               (case answerQuery env pa fileSections promptEmbedding of
                  (r, ev') \<Rightarrow> (r, ev @ ev'))))"

definition allowedMethods :: "string list" where
  "allowedMethods = [''POST'']"

definition handler :: "handler_env \<Rightarrow> NextRequest \<Rightarrow> http_response \<times> engine_event list" where
  "handler env req =
     (if rq_method req = Some ''OPTIONS'' then (textResponse ''ok'' 200, [])
      else if \<not> truthyStr (rq_method req) \<or> or_empty (rq_method req) \<notin> set allowedMethods
      then (textResponse (''Method '' @ (case rq_method req of None \<Rightarrow> ''undefined'' | Some m \<Rightarrow> m) @
                            '' Not Allowed'') 405, [])
      else
        (case handlerBody env req of
           (Inl e, ev) \<Rightarrow>
             (textResponse (''Error processing '' @ or_empty (rq_method req) @ '' request: '' @
                              stringifyError env e) 500, ev)
         | (Inr r, ev) \<Rightarrow> (r, ev)))"

text \<open>The rows a run of the handler inserted into \<^verbatim>\<open>query_stats\<close>.\<close>

fun insertedRows :: "engine_event list \<Rightarrow> query_row list" where
  "insertedRows [] = []"
| "insertedRows (InsertQueryStat row # es) = row # insertedRows es"
| "insertedRows (e # es) = insertedRows es"

subsection \<open>What a run of the handler shows of the prompt\<close>

text \<open>
  Two bodies that agree on every key but \<open>prompt\<close>; the values read from them,
  related in the same way; the query texts sent to moderation and embedding; and
  the property that a run sent and stored no prompt text but the given one.
\<close>

definition same_but_prompt :: "params \<Rightarrow> params \<Rightarrow> bool" where
  "same_but_prompt p1 p2 \<longleftrightarrow> (\<forall>k. k \<noteq> ''prompt'' \<longrightarrow> p1 k = p2 k)"

definition pa_rel :: "parsed \<Rightarrow> parsed \<Rightarrow> bool" where
  "pa_rel pa1 pa2 \<longleftrightarrow>
     pa2 = pa1\<lparr>pa_params := pa_params pa2\<rparr> \<and> same_but_prompt (pa_params pa1) (pa_params pa2)"

fun queriesOf :: "engine_event list \<Rightarrow> string list" where
  "queriesOf [] = []"
| "queriesOf (CreateModeration q k # es) = q # queriesOf es"
| "queriesOf (CreateEmbedding n q k # es) = q # queriesOf es"
| "queriesOf (e # es) = queriesOf es"

definition prompt_only :: "string \<Rightarrow> engine_event list \<Rightarrow> bool" where
  "prompt_only prompt ev \<longleftrightarrow>
     (\<forall>q \<in> set (queriesOf ev). q = sanitizeQuery prompt) \<and>
     (\<forall>row \<in> set (insertedRows ev). q_prompt row = None \<or> q_prompt row = Some prompt)"

subsection \<open>Invariant of the streamed body\<close>


subsection \<open>Concrete collaborators for the engine\<close>

text \<open>
  A small deployment: moderation flags the query \<open>bad query\<close>; the first embedding
  attempt is rate limited; the project \<open>empty\<close> has no sections; the provider rejects
  the key; \<open>JSON.parse\<close> reads the event data as the content of a chat chunk.
\<close>

definition demo_llm :: llm_info where
  "demo_llm = \<lparr>llm_vendor = ''openai'', llm_model_type = chat_completions,
                llm_model_value = ''gpt-3.5-turbo''\<rparr>"

definition demoChunkParse :: "string \<Rightarrow> json option" where
  "demoChunkParse d =
     Some (JObj [(''choices'', JArr [JObj [(''delta'', JObj [(''content'', JStr d)])]])])"

definition demo_section :: FileSectionMatchResult where
  "demo_section = \<lparr>files_path = ''docs/a.md'', file_sections_content = ''X is a letter.'',
                    file_sections_token_count = 5, section_meta = []\<rparr>"

definition demo_sections :: sections_env where
  "demo_sections =
     \<lparr>createModeration = (\<lambda>q k. Inr (Some \<lparr>mod_results = Some [q = ''bad query'']\<rparr>)),
      createEmbedding = (\<lambda>n q k m. if n = 0 then Inl (Thrown ''too_many_requests'')
                                     else Inr \<lparr>emb_error = None, emb_total_tokens = Some 3,
                                               emb_data = Some [1]\<rparr>),
      recordProjectTokenCount = (\<lambda>p m n k. None),
      match_file_sections = (\<lambda>a. (None, if rpc_project_id a = ''empty'' then Some []
                                          else Some [demo_section])),
      stringToLLMInfo = (\<lambda>m. demo_llm),
      errToString = (\<lambda>e. case e of ApiError c m \<Rightarrow> m | Thrown m \<Rightarrow> m)\<rparr>"

definition demo_env :: handler_env where
  "demo_env =
     \<lparr>sections = demo_sections,
      MAX_PROMPT_LENGTH = 10,
      I_DONT_KNOW = ''Sorry, I am not sure how to answer that.'',
      CONTEXT_TOKENS_CUTOFF = 100,
      DEFAULT_PROMPT_TEMPLATE = ''Answer.'',
      modelConfigFields = [''model'', ''temperature''],
      OPENAI_API_KEY = Some ''sk'',
      checkCompletionsRateLimits = (\<lambda>p. True),
      isRequestFromMarkprompt = (\<lambda>origin. False),
      getTeamTierInfo = (\<lambda>p. Some ''pro''),
      canUseCustomModelConfig = (\<lambda>t. True),
      getAccessibleInsightsType = (\<lambda>t. Some advanced),
      getProjectConfigData = (\<lambda>p. None),
      insertQueryStat = (\<lambda>row. Some ''q1''),
      buildSectionReferenceFromMatchResult =
        (\<lambda>sec. \<lparr>ref_file_path = files_path sec, ref_meta = section_meta sec\<rparr>),
      getCompletionsUrl = (\<lambda>m. ''https://api.openai.com/v1/chat/completions''),
      getCompletionsResponseText = (\<lambda>j m. []),
      safeParseInt = (\<lambda>j d. d),
      fetchCompletions = (\<lambda>url bearer pl.
        Inr \<lparr>pr_ok = False, pr_text = ''Incorrect API key'', pr_json = None, pr_events = []\<rparr>),
      strReplace = (\<lambda>v pat rep. v),
      stripIndent = (\<lambda>v. v),
      JSON_parse = demoChunkParse,
      stringifyPaths = (\<lambda>ps. ''[]''),
      stringifyError = (\<lambda>e. ''{}'')\<rparr>"

definition demo_params :: "string \<Rightarrow> json option \<Rightarrow> params" where
  "demo_params prompt stream = (\<lambda>k. None)(''prompt'' := Some (JStr prompt), ''stream'' := stream)"

definition demo_request :: "string \<Rightarrow> string \<Rightarrow> json option \<Rightarrow> NextRequest" where
  "demo_request project prompt stream =
     \<lparr>rq_method = Some ''POST'',
      rq_pathname = ''/api/v1/openai/completions/'' @ project,
      rq_project = None,
      rq_origin = None,
      rq_json = Some (demo_params prompt stream)\<rparr>"

section \<open>Properties of the ingestion orchestrator\<close>

lemma new_calls_append: "calls s' = calls s @ xs \<Longrightarrow> new_calls s s' = xs"
  by (simp add: new_calls_def)

text \<open>The calls one item makes: none, the resolve alone, or resolve, index, callback.\<close>

lemma generateEmbeddingForFile_calls:
  assumes "generateEmbeddingForFile env index checksums sourceId sourceType numFiles forceRetrain
             getFilePath getFileData s = (r, s')"
  shows "new_calls s s' = [] \<or>
         (new_calls s s' = [GetFileData index (getFileData index)] \<and>
            (case getFileData index of
               Inr (Some fileData) \<Rightarrow>
                 prevChecksumOf checksums (getFilePath index) =
                   Some (createChecksum env (or_empty (pf_content fileData))) \<and> \<not> forceRetrain
             | _ \<Rightarrow> True)) \<or>
         (\<exists>fileData file. getFileData index = Inr (Some fileData) \<and>
            \<not> (prevChecksumOf checksums (getFilePath index) =
                   Some (createChecksum env (or_empty (pf_content fileData))) \<and> \<not> forceRetrain) \<and>
            new_calls s s' = [GetFileData index (getFileData index), ProcessFile sourceId file,
                              FileProcessed (getFilePath index)])"
proof (cases "stopFlag s \<or> \<not> shouldIncludeFileWithPath env (getFilePath index) (cfg_include env)
                (cfg_exclude env) (sourceType = Website)")
  case True
  with assms have "s' = s"
    by (auto simp: generateEmbeddingForFile_def Let_def split: if_splits)
  then show ?thesis by (simp add: new_calls_def)
next
  case started: False
  show ?thesis
  proof (cases "getFileData index")
    case (Inl e)
    with started assms have "calls s' = calls s @ [GetFileData index (getFileData index)]"
      by (auto simp: generateEmbeddingForFile_def Let_def)
    then show ?thesis using Inl by (simp add: new_calls_append)
  next
    case (Inr v)
    show ?thesis
    proof (cases v)
      case None
      with Inr started assms
      have "calls s' = calls s @ [GetFileData index (getFileData index)]"
        by (auto simp: generateEmbeddingForFile_def Let_def)
      then show ?thesis using Inr None by (simp add: new_calls_append)
    next
      case (Some fileData)
      show ?thesis
      proof (cases "prevChecksumOf checksums (getFilePath index) =
                   Some (createChecksum env (or_empty (pf_content fileData))) \<and> \<not> forceRetrain")
        case True
        with Some Inr started assms
        have "calls s' = calls s @ [GetFileData index (getFileData index)]"
          by (auto simp: generateEmbeddingForFile_def Let_def)
        then show ?thesis using Inr Some True by (simp add: new_calls_append)
      next
        case changed: False
        with Some Inr started assms
        have "\<exists>file. calls s' = calls s @ [GetFileData index (getFileData index),
            ProcessFile sourceId file, FileProcessed (getFilePath index)]"
          by (auto simp: generateEmbeddingForFile_def Let_def split: option.splits if_splits)
        then show ?thesis using Inr Some changed by (auto simp add: new_calls_append)
      qed
    qed
  qed
qed



text \<open>A run that loads its checksums ends in the idle state, and it lists no quota error.\<close>

lemma generateEmbeddings_ends_idle:
  assumes "truthyStr (project_id env)" and "loadChecksums env sourceId = Inr data"
  shows "fst (generateEmbeddings env sourceId sourceType numFiles forceRetrain getFilePath
           getFileData s) = None \<and>
         state (snd (generateEmbeddings env sourceId sourceType numFiles forceRetrain getFilePath
           getFileData s)) = Idle"
  using assms by (simp add: generateEmbeddings_def Let_def)

lemma generateEmbeddingForFile_errors:
  assumes "generateEmbeddingForFile env index checksums sourceId sourceType numFiles forceRetrain
             getFilePath getFileData s = (r, s')"
  shows "errors s' = errors s \<or>
         (\<exists>e. errors s' = errors s @ [errorMessage env (getFilePath index) e] \<and>
              \<not> isQuotaExceeded env e)"
  using assms
  by (auto simp: generateEmbeddingForFile_def Let_def
      split: if_splits sum.splits option.splits)

lemma runTask_listed:
  assumes "listed env getFilePath (errors s)"
  shows "listed env getFilePath (errors (runTask env checksums sourceId sourceType numFiles
           forceRetrain getFilePath getFileData index s))"
proof -
  obtain r s' where g: "generateEmbeddingForFile env index checksums sourceId sourceType numFiles
      forceRetrain getFilePath getFileData s = (r, s')"
    by (cases "generateEmbeddingForFile env index checksums sourceId sourceType numFiles
      forceRetrain getFilePath getFileData s")
  have rt: "runTask env checksums sourceId sourceType numFiles forceRetrain getFilePath
                   getFileData index s = s'"
    using g by (simp add: runTask_def split: option.splits)
  from generateEmbeddingForFile_errors[OF g] assms show ?thesis
    unfolding rt listed_def by (elim disjE exE) auto
qed

lemma fold_runTask_listed:
  assumes "listed env getFilePath (errors s)"
  shows "listed env getFilePath (errors (fold (runTask env checksums sourceId sourceType numFiles
           forceRetrain getFilePath getFileData) is s))"
  using assms by (induction "is" arbitrary: s) (auto simp: runTask_listed)

lemma quota_error_not_listed:
  assumes "truthyStr (project_id env)"
  shows "listed env getFilePath (errors (snd (generateEmbeddings env sourceId sourceType numFiles
           forceRetrain getFilePath getFileData s)))"
proof (cases "loadChecksums env sourceId")
  case (Inl e)
  with assms show ?thesis by (simp add: generateEmbeddings_def listed_def)
next
  case (Inr data)
  have "listed env getFilePath (errors (s\<lparr>errors := [], stopFlag := False\<rparr>))"
    by (simp add: listed_def)
  from fold_runTask_listed[OF this] assms Inr show ?thesis
    by (simp add: generateEmbeddings_def Let_def)
qed


lemma requestedIndices_append:
  "requestedIndices (xs @ ys) = requestedIndices xs @ requestedIndices ys"
  by (induction xs rule: requestedIndices.induct) auto

lemma generateEmbeddingForFile_attempt:
  assumes "generateEmbeddingForFile env index checksums sourceId sourceType numFiles forceRetrain
             getFilePath getFileData s = (r, s')"
    and "\<not> stopFlag s"
    and "shouldIncludeFileWithPath env (getFilePath index) (cfg_include env) (cfg_exclude env)
           (sourceType = Website)"
  shows "\<not> stopFlag s' \<and> requestedIndices (calls s') = requestedIndices (calls s) @ [index]"
  using assms
  by (auto simp: generateEmbeddingForFile_def Let_def requestedIndices_append
      split: if_splits sum.splits option.splits)

lemma runTask_attempt:
  assumes "\<not> stopFlag s"
    and "shouldIncludeFileWithPath env (getFilePath index) (cfg_include env) (cfg_exclude env)
           (sourceType = Website)"
  shows "\<not> stopFlag (runTask env checksums sourceId sourceType numFiles forceRetrain getFilePath
            getFileData index s) \<and>
         requestedIndices (calls (runTask env checksums sourceId sourceType numFiles forceRetrain
            getFilePath getFileData index s)) = requestedIndices (calls s) @ [index]"
proof -
  obtain r s' where g: "generateEmbeddingForFile env index checksums sourceId sourceType numFiles
      forceRetrain getFilePath getFileData s = (r, s')"
    by (cases "generateEmbeddingForFile env index checksums sourceId sourceType numFiles
      forceRetrain getFilePath getFileData s")
  have rt: "runTask env checksums sourceId sourceType numFiles forceRetrain getFilePath
                   getFileData index s = s'"
    using g by (simp add: runTask_def split: option.splits)
  from generateEmbeddingForFile_attempt[OF g assms] show ?thesis by (simp add: rt)
qed

lemma fold_runTask_attempt:
  assumes "\<not> stopFlag s"
    and "\<forall>i < n. shouldIncludeFileWithPath env (getFilePath i) (cfg_include env) (cfg_exclude env)
           (sourceType = Website)"
  shows "\<not> stopFlag (fold (runTask env checksums sourceId sourceType numFiles forceRetrain
            getFilePath getFileData) [0..<n] s) \<and>
         requestedIndices (calls (fold (runTask env checksums sourceId sourceType numFiles
            forceRetrain getFilePath getFileData) [0..<n] s)) =
           requestedIndices (calls s) @ [0..<n]"
  using assms(2)
proof (induction n)
  case 0
  then show ?case using assms(1) by simp
next
  case (Suc n)
  then have ih: "\<not> stopFlag (fold (runTask env checksums sourceId sourceType numFiles forceRetrain
            getFilePath getFileData) [0..<n] s)"
    "requestedIndices (calls (fold (runTask env checksums sourceId sourceType numFiles
            forceRetrain getFilePath getFileData) [0..<n] s)) = requestedIndices (calls s) @ [0..<n]"
    by simp_all
  from Suc.prems have inc: "shouldIncludeFileWithPath env (getFilePath n) (cfg_include env)
      (cfg_exclude env) (sourceType = Website)" by simp
  from runTask_attempt[where getFilePath = getFilePath and index = n, OF ih(1) inc] ih(2)
  show ?case by simp
qed

text \<open>Whatever the indexing collaborator answers, every item that passes the filter is
  resolved: no exception of \<open>processFile\<close> stops the run.\<close>

lemma every_item_attempted:
  assumes "truthyStr (project_id env)" and "loadChecksums env sourceId = Inr data"
    and "\<forall>i < numFiles. shouldIncludeFileWithPath env (getFilePath i) (cfg_include env)
           (cfg_exclude env) (sourceType = Website)"
  shows "requestedIndices (calls (snd (generateEmbeddings env sourceId sourceType numFiles
           forceRetrain getFilePath getFileData s))) = requestedIndices (calls s) @ [0..<numFiles]"
proof -
  have "\<not> stopFlag (s\<lparr>errors := [], stopFlag := False\<rparr>)" by simp
  from fold_runTask_attempt[where getFilePath = getFilePath, OF this assms(3)] assms(1,2)
  show ?thesis
    by (simp add: generateEmbeddings_def Let_def)
qed


text \<open>
  Claim C1, evaluated on the run of seven items. The quota error of item 3 is thrown again by
  \<open>generateEmbeddingForFile\<close> "in order to stop the batch processing", but the task's own
  \<^verbatim>\<open>try/catch\<close> in \<open>generateEmbeddings\<close> catches it: the items scheduled after it
  (4, 5 and 6) are still handed to the indexing collaborator. The error list stays
  empty and the final state is idle.
\<close>

theorem quota_error_does_not_stop_later_items:
  "processedPaths (calls (snd (generateEmbeddings quota_env ''src'' Github 7 False item_path
      item_data orch_init))) = [''f1'', ''f2'', ''f3'', ''f4'', ''f5'', ''f6''] \<and>
   errors (snd (generateEmbeddings quota_env ''src'' Github 7 False item_path item_data
      orch_init)) = [] \<and>
   state (snd (generateEmbeddings quota_env ''src'' Github 7 False item_path item_data
      orch_init)) = Idle"
  by code_simp

subsection \<open>The discovery loop\<close>

lemma item_events_Nil: "item_events g n []"
  by (simp add: item_events_def)

lemma item_events_append:
  "item_events g n (xs @ ys) \<longleftrightarrow> item_events g n xs \<and> item_events g n ys"
  by (auto simp: item_events_def)

lemma generateEmbeddingForFile_appends:
  assumes "generateEmbeddingForFile env index checksums sourceId sourceType numFiles forceRetrain
             getFilePath getFileData s = (r, s')"
  shows "calls s' = calls s @ new_calls s s'"
  using assms
  by (auto simp: generateEmbeddingForFile_def new_calls_def Let_def
      split: if_splits sum.splits option.splits)

lemma runTask_events:
  assumes "index < numFiles"
  shows "\<exists>xs. calls (runTask env checksums sourceId sourceType numFiles forceRetrain getFilePath
                   getFileData index s) = calls s @ xs \<and> item_events getFileData numFiles xs"
proof -
  obtain r s' where g: "generateEmbeddingForFile env index checksums sourceId sourceType numFiles
      forceRetrain getFilePath getFileData s = (r, s')"
    by (cases "generateEmbeddingForFile env index checksums sourceId sourceType numFiles
      forceRetrain getFilePath getFileData s")
  have rt: "runTask env checksums sourceId sourceType numFiles forceRetrain getFilePath
                   getFileData index s = s'"
    using g by (simp add: runTask_def split: option.splits)
  have "item_events getFileData numFiles (new_calls s s')"
    using generateEmbeddingForFile_calls[OF g] assms
    by (elim disjE) (auto simp: item_events_def)
  with generateEmbeddingForFile_appends[OF g] rt show ?thesis by auto
qed

lemma fold_runTask_events:
  assumes "\<forall>i \<in> set is. i < numFiles"
  shows "\<exists>xs. calls (fold (runTask env checksums sourceId sourceType numFiles forceRetrain getFilePath
                   getFileData) is s) = calls s @ xs \<and> item_events getFileData numFiles xs"
  using assms
proof (induction "is" arbitrary: s)
  case Nil
  then show ?case by (simp add: item_events_Nil)
next
  case (Cons i "is")
  let ?s1 = "runTask env checksums sourceId sourceType numFiles forceRetrain getFilePath
                   getFileData i s"
  from Cons.prems have "i < numFiles" by simp
  from runTask_events[OF this] obtain xs where
    xs: "calls ?s1 = calls s @ xs" "item_events getFileData numFiles xs"
    by blast
  from Cons.IH[of ?s1] Cons.prems obtain ys where
    ys: "calls (fold (runTask env checksums sourceId sourceType numFiles forceRetrain getFilePath
                   getFileData) is ?s1) = calls ?s1 @ ys" "item_events getFileData numFiles ys"
    by auto
  show ?case using xs ys by (auto simp: item_events_append)
qed

lemma generateEmbeddings_events:
  assumes "generateEmbeddings env sourceId sourceType numFiles forceRetrain getFilePath getFileData s
             = (thrown, s')"
  shows "item_events getFileData numFiles (new_calls s s')"
proof (cases "truthyStr (project_id env)")
  case False
  with assms show ?thesis by (simp add: generateEmbeddings_def new_calls_def item_events_Nil)
next
  case Some: True
  show ?thesis
  proof (cases "loadChecksums env sourceId")
    case (Inl e)
    with assms Some show ?thesis
      by (auto simp: generateEmbeddings_def new_calls_def item_events_Nil)
  next
    case (Inr data)
    define cs where "cs = (case data of None \<Rightarrow> [] | Some cs \<Rightarrow> cs)"
    define s0 where "s0 = s\<lparr>errors := [], stopFlag := False\<rparr>"
    from fold_runTask_events[of "[0..<numFiles]" numFiles env cs sourceId sourceType forceRetrain
        getFilePath getFileData s0]
    obtain xs where xs: "calls (fold (runTask env cs sourceId sourceType numFiles forceRetrain
        getFilePath getFileData) [0..<numFiles] s0) = calls s0 @ xs"
      "item_events getFileData numFiles xs"
      by auto
    have "s' = (fold (runTask env cs sourceId sourceType numFiles forceRetrain
        getFilePath getFileData) [0..<numFiles] s0)\<lparr>state := Idle\<rparr>"
      using assms Some Inr by (auto simp: generateEmbeddings_def Let_def cs_def s0_def)
    then have "calls s' = calls s @ xs"
      using xs(1) by (simp add: s0_def)
    with xs(2) show ?thesis by (simp add: new_calls_def)
  qed
qed


lemma set_uniq: "set (uniq xs) = set xs"
  by (induction xs) auto

lemma set_discoveredLinks:
  "set (discoveredLinks env baseUrl cs) = (\<Union>c \<in> set cs. set (discoveredLinks env baseUrl [c]))"
  by (auto simp: discoveredLinks_def set_uniq)

lemma resolvedContents_events:
  "c \<in> set (resolvedContents xs) \<Longrightarrow>
     \<exists>i fd. GetFileData i (Inr (Some fd)) \<in> set xs \<and> c = or_empty (pf_content fd)"
  by (induction xs rule: resolvedContents.induct) auto

lemma resolvedContents_item_events:
  assumes "item_events g n xs" and "c \<in> set (resolvedContents xs)"
  shows "\<exists>i fd. i < n \<and> g i = Inr (Some fd) \<and> c = or_empty (pf_content fd)"
proof -
  from resolvedContents_events[OF assms(2)] obtain i fd where
    e: "GetFileData i (Inr (Some fd)) \<in> set xs" "c = or_empty (pf_content fd)"
    by blast
  with assms(1) have "i < n" "Inr (Some fd) = g i"
    by (auto simp: item_events_def)
  with e(2) show ?thesis by metis
qed

lemma requestedIndices_item_events:
  assumes "item_events g n xs" and "i \<in> set (requestedIndices xs)"
  shows "i < n"
  using assms
  by (induction xs rule: requestedIndices.induct) (auto simp: item_events_def)

lemma pageFileData_content:
  assumes "pageFileData env urls i = Inr (Some fd)"
  shows "fetchPageContent env (urls ! i) = Inr (Some (or_empty (pf_content fd)))"
  using assms
  by (auto simp: pageFileData_def Let_def truthyStr_def or_empty_def
      split: sum.splits if_splits option.splits)

lemma generateEmbeddingsForUrls_result:
  assumes "generateEmbeddingsForUrls env sourceId forceRetrain urls s = (thrown, contents, req, s')"
  shows "(\<forall>c \<in> set contents. \<exists>u \<in> set urls. fetchPageContent env u = Inr (Some c)) \<and>
         set req \<subseteq> set urls"
proof -
  obtain t s1 where g: "generateEmbeddings (w_train env) sourceId Website (length urls) forceRetrain
             (\<lambda>i. urls ! i) (pageFileData env urls) s = (t, s1)"
    by (cases "generateEmbeddings (w_train env) sourceId Website (length urls) forceRetrain
             (\<lambda>i. urls ! i) (pageFileData env urls) s")
  note ie = generateEmbeddings_events[OF g]
  from assms g have c: "contents = resolvedContents (new_calls s s1)"
    and r: "req = map (\<lambda>i. urls ! i) (requestedIndices (new_calls s s1))"
    by (auto simp: generateEmbeddingsForUrls_def)
  have "\<forall>c \<in> set contents. \<exists>u \<in> set urls. fetchPageContent env u = Inr (Some c)"
  proof
    fix x assume "x \<in> set contents"
    with c resolvedContents_item_events[OF ie] obtain i fd where
      i: "i < length urls" "pageFileData env urls i = Inr (Some fd)" "x = or_empty (pf_content fd)"
      by blast
    from pageFileData_content[OF i(2)] i(1,3)
    show "\<exists>u \<in> set urls. fetchPageContent env u = Inr (Some x)"
      by (auto intro!: bexI[of _ "urls ! i"])
  qed
  moreover have "set req \<subseteq> set urls"
    using r requestedIndices_item_events[OF ie] by auto
  ultimately show ?thesis by blast
qed

lemma discoveryRound_step:
  assumes cs: "closed_site env baseUrl U" and sub: "set (linksToProcess c) \<subseteq> U"
  shows "(aborted (discoveryRound env sourceId forceRetrain baseUrl c) \<or>
           processedLinks (discoveryRound env sourceId forceRetrain baseUrl c) =
             processedLinks c @ linksToProcess c \<and>
           set (linksToProcess (discoveryRound env sourceId forceRetrain baseUrl c)) \<subseteq> U \<and>
           set (linksToProcess (discoveryRound env sourceId forceRetrain baseUrl c)) \<inter>
             set (processedLinks (discoveryRound env sourceId forceRetrain baseUrl c)) = {}) \<and>
         (\<exists>urls. requested (discoveryRound env sourceId forceRetrain baseUrl c) = requested c @ [urls] \<and>
                 set urls \<subseteq> set (linksToProcess c))"
proof -
  obtain thrown contents req s' where g:
    "generateEmbeddingsForUrls env sourceId forceRetrain (linksToProcess c) (crawl_orch c) =
       (thrown, contents, req, s')"
    by (cases "generateEmbeddingsForUrls env sourceId forceRetrain (linksToProcess c) (crawl_orch c)")
       auto
  note res = generateEmbeddingsForUrls_result[OF g]
  show ?thesis
  proof (cases thrown)
    case (Some e)
    with g res show ?thesis by (simp add: discoveryRound_def)
  next
    case None
    have "set (discoveredLinks env baseUrl contents) \<subseteq> U"
    proof
      fix l assume "l \<in> set (discoveredLinks env baseUrl contents)"
      then obtain x where x: "x \<in> set contents" "l \<in> set (discoveredLinks env baseUrl [x])"
        by (auto simp: set_discoveredLinks[of env baseUrl contents])
      with res obtain u where u: "u \<in> set (linksToProcess c)" "fetchPageContent env u = Inr (Some x)"
        by blast
      with sub have "u \<in> U" by auto
      with cs u(2) have "set (discoveredLinks env baseUrl [x]) \<subseteq> U"
        by (auto simp: closed_site_def)
      with x(2) show "l \<in> U" by auto
    qed
    with g res None show ?thesis
      by (auto simp: discoveryRound_def Let_def)
  qed
qed


lemma disjoint_rounds_snoc:
  "disjoint_rounds (rs @ [r]) \<longleftrightarrow> disjoint_rounds rs \<and> (\<forall>r' \<in> set rs. set r' \<inter> set r = {})"
  by (induction rs) auto

lemma discoveryRound_inv:
  assumes inv: "crawl_inv c" and na: "\<not> aborted c"
  shows "crawl_inv (discoveryRound env sourceId forceRetrain baseUrl c)"
proof -
  obtain thrown contents req s' where g:
    "generateEmbeddingsForUrls env sourceId forceRetrain (linksToProcess c) (crawl_orch c) =
       (thrown, contents, req, s')"
    by (cases "generateEmbeddingsForUrls env sourceId forceRetrain (linksToProcess c) (crawl_orch c)")
       auto
  from generateEmbeddingsForUrls_result[OF g] have req: "set req \<subseteq> set (linksToProcess c)"
    by simp
  from inv na have old: "disjoint_rounds (requested c)"
    "\<forall>r \<in> set (requested c). set r \<subseteq> set (processedLinks c)"
    "set (linksToProcess c) \<inter> set (processedLinks c) = {}"
    by (simp_all add: crawl_inv_def)
  have dj: "disjoint_rounds (requested c @ [req])"
    using old req by (auto simp: disjoint_rounds_snoc)
  show ?thesis
  proof (cases thrown)
    case (Some e)
    with g dj show ?thesis by (simp add: discoveryRound_def crawl_inv_def)
  next
    case None
    with g dj old req show ?thesis
      by (auto simp: discoveryRound_def crawl_inv_def Let_def)
  qed
qed

lemma discoveryLoop_terminates_inv:
  assumes cs: "closed_site env baseUrl U"
  shows "set (linksToProcess c) \<subseteq> U \<Longrightarrow> crawl_inv c \<Longrightarrow>
         \<exists>c'. discoveryLoop env sourceId forceRetrain baseUrl c = Some c' \<and>
              (linksToProcess c' = [] \<or> aborted c') \<and> crawl_inv c'"
proof (induction "card (U - set (processedLinks c))" arbitrary: c rule: less_induct)
  case less
  show ?case
  proof (cases "linksToProcess c = [] \<or> aborted c")
    case True
    then have "discoveryLoop env sourceId forceRetrain baseUrl c = Some c"
      by (subst discoveryLoop.simps) simp
    with True less.prems show ?thesis by simp
  next
    case False
    let ?c1 = "discoveryRound env sourceId forceRetrain baseUrl c"
    have unfold: "discoveryLoop env sourceId forceRetrain baseUrl c =
                  discoveryLoop env sourceId forceRetrain baseUrl ?c1"
      using False by (subst discoveryLoop.simps) simp
    have inv1: "crawl_inv ?c1"
      using less.prems(2) False by (simp add: discoveryRound_inv)
    note step = discoveryRound_step[OF cs less.prems(1), of sourceId forceRetrain]
    show ?thesis
    proof (cases "aborted ?c1")
      case True
      then have "discoveryLoop env sourceId forceRetrain baseUrl ?c1 = Some ?c1"
        by (subst discoveryLoop.simps) simp
      with unfold True inv1 show ?thesis by simp
    next
      case na: False
      with step have p: "processedLinks ?c1 = processedLinks c @ linksToProcess c"
        and l: "set (linksToProcess ?c1) \<subseteq> U"
        by auto
      from False obtain x where x: "x \<in> set (linksToProcess c)"
        by (cases "linksToProcess c") auto
      from less.prems(2) False have "set (linksToProcess c) \<inter> set (processedLinks c) = {}"
        by (simp add: crawl_inv_def)
      with x less.prems(1) have "x \<in> U - set (processedLinks c)" by auto
      moreover have "x \<notin> U - set (processedLinks ?c1)" using x p by simp
      moreover have "U - set (processedLinks ?c1) \<subseteq> U - set (processedLinks c)"
        using p by auto
      ultimately have "U - set (processedLinks ?c1) \<subset> U - set (processedLinks c)" by blast
      moreover have "finite (U - set (processedLinks c))"
        using cs by (simp add: closed_site_def)
      ultimately have "card (U - set (processedLinks ?c1)) < card (U - set (processedLinks c))"
        by (rule psubset_card_mono[rotated])
      from less.hyps[OF this l inv1] unfold show ?thesis by simp
    qed
  qed
qed

theorem discovery_terminates_rounds_disjoint:
  assumes "closed_site env baseUrl U"
    and "removeTrailingSlashQueryParamsAndHash env url \<in> U"
  shows "\<exists>c'. discoveryLoop env sourceId forceRetrain baseUrl (crawl_init env url s) = Some c' \<and>
              (linksToProcess c' = [] \<or> aborted c') \<and> disjoint_rounds (requested c')"
proof -
  have "set (linksToProcess (crawl_init env url s)) \<subseteq> U"
    using assms(2) by (simp add: crawl_init_def)
  moreover have "crawl_inv (crawl_init env url s)"
    by (simp add: crawl_init_def crawl_inv_def)
  ultimately show ?thesis
    using discoveryLoop_terminates_inv[OF assms(1), of "crawl_init env url s" sourceId forceRetrain]
    by (auto simp: crawl_inv_def)
qed

text \<open>
  Claim C4 on the two-page site. The two hrefs of the root page are distinct, so
  \<open>uniq\<close> keeps both; both normalize to the URL of the page \<open>/a\<close>, and the second
  round requests that page twice.
\<close>

theorem page_requested_twice_in_one_round:
  "extractLinksFromHtml site_env ''/a /a#top'' = [''/a'', ''/a#top''] \<and>
   map_option requested
     (discoveryLoop site_env ''src'' False ''https://x.org''
        (crawl_init site_env ''https://x.org/'' orch_init)) =
     Some [[''https://x.org''], [''https://x.org/a'', ''https://x.org/a'']]"
  by code_simp

section \<open>Properties of the client stream decoder\<close>

lemma includesJS_sublist: "includesJS s sep \<longleftrightarrow> sublist sep s"
  by (induction s) (auto simp: sublist_Cons_right)


















lemma split_acc_nonempty: "split_acc sep acc s \<noteq> []"
  by (induction sep acc s rule: split_acc.induct) auto

lemma split_acc_two_parts:
  "sep \<noteq> [] \<Longrightarrow> sublist sep s \<Longrightarrow> \<exists>p0 p1 rest. split_acc sep acc s = p0 # p1 # rest"
proof (induction s arbitrary: acc)
  case Nil
  then show ?case by simp
next
  case (Cons c cs)
  show ?case
  proof (cases "prefix sep (c # cs)")
    case True
    obtain q qs where "split_acc sep [] (drop (length sep) (c # cs)) = q # qs"
      using split_acc_nonempty by (meson neq_Nil_conv)
    with True Cons.prems(1) show ?thesis by simp
  next
    case False
    with Cons.prems have "sublist sep cs" by (simp add: sublist_Cons_right)
    with Cons.IH[OF Cons.prems(1), of "c # acc"] False show ?thesis by simp
  qed
qed

text \<open>When the text includes the separator, \<^verbatim>\<open>parts[0]\<close> and \<^verbatim>\<open>parts[1]\<close> exist.\<close>

lemma splitJS_two_parts:
  "sep \<noteq> [] \<Longrightarrow> includesJS s sep \<Longrightarrow> \<exists>p0 p1 rest. splitJS sep s = p0 # p1 # rest"
  by (simp add: splitJS_def includesJS_sublist split_acc_two_parts)





text \<open>
  Claim C9. When a request is made (project key and prompt are not empty) and it fails
  outright (\<open>fetch\<close> throws, or the response is not ok, or it has no body), the
  callbacks are called exactly twice: the answer-chunk callback with the configured
  fallback message, then the error callback.
\<close>

theorem failed_request_fallback_then_error:
  assumes "projectKey \<noteq> []" and "prompt \<noteq> []"
    and "failsOutright (fetch (buildRequest prompt projectKey options))"
  shows "\<exists>e. submitPrompt fetch jsonParse prompt projectKey options =
           Inr [AnswerChunk (fallbackMessage options), OnError e]"
  using assms
  by (cases "fetch (buildRequest prompt projectKey options)")
     (auto simp: submitPrompt_def Let_def split: sum.splits option.splits)

theorem failed_request_fallback_then_error_witness:
  "''key'' \<noteq> [] \<and> ''hi'' \<noteq> [] \<and>
   failsOutright (unauthorizedFetch (buildRequest ''hi'' ''key'' None)) \<and>
   (\<exists>e. submitPrompt unauthorizedFetch demoParse ''hi'' ''key'' None =
           Inr [AnswerChunk I_DONT_KNOW_MESSAGE, OnError e])"
proof -
  have h1: "''key'' \<noteq> []" and h2: "''hi'' \<noteq> []" by simp_all
  have h3: "failsOutright (unauthorizedFetch (buildRequest ''hi'' ''key'' None))"
    by (simp add: unauthorizedFetch_def)
  have fb: "fallbackMessage None = I_DONT_KNOW_MESSAGE"
    by (simp add: fallbackMessage_def mergeOptions_def or_empty_def)
  from failed_request_fallback_then_error[where projectKey = "''key''" and prompt = "''hi''"
      and fetch = unauthorizedFetch and options = None and jsonParse = demoParse, OF h1 h2 h3]
    h3 fb
  show ?thesis by simp
qed

section \<open>Properties of the completion engine\<close>

text \<open>
  Claim C5. When the moderation collaborator flags the sanitized query,
  \<open>getMatchingSections\<close> throws \<open>ApiError(400, "Flagged content")\<close> and the moderation
  call is the only call it has made: no embedding call, no retrieval, no token-usage
  recording.
\<close>

theorem flagged_query_fails_before_embedding:
  assumes "createModeration env sanitizedQuery byoOpenAIKey = Inr moderationResponse"
    and "isFlagged moderationResponse"
  shows "getMatchingSections env sanitizedQuery verbatimPrompt sectionsMatchThreshold
           sectionsMatchCount projectId byoOpenAIKey =
         (Inl (ApiError 400 ''Flagged content''), [CreateModeration sanitizedQuery byoOpenAIKey])"
  using assms by (simp add: getMatchingSections_def)

theorem flagged_query_fails_before_embedding_witness:
  "createModeration demo_sections ''bad query'' None = Inr (Some \<lparr>mod_results = Some [True]\<rparr>) \<and>
   isFlagged (Some \<lparr>mod_results = Some [True]\<rparr>) \<and>
   getMatchingSections demo_sections ''bad query'' ''bad query'' None None ''p1'' None =
     (Inl (ApiError 400 ''Flagged content''), [CreateModeration ''bad query'' None])"
proof -
  have h1: "createModeration demo_sections ''bad query'' None =
              Inr (Some \<lparr>mod_results = Some [True]\<rparr>)"
    by (simp add: demo_sections_def)
  have h2: "isFlagged (Some \<lparr>mod_results = Some [True]\<rparr>)"
    by (simp add: isFlagged_def)
  from flagged_query_fails_before_embedding[OF h1 h2] h1 h2 show ?thesis by simp
qed

text \<open>The handler turns the exception into a 400 response and stores one row.\<close>

lemma flagged_query_response:
  assumes "parseRequest env req = Inr (Inr pa)"
    and "createModeration (sections env) (sanitizeQuery (pa_prompt pa)) (pa_byoOpenAIKey pa) = Inr m"
    and "isFlagged m"
  shows "\<exists>row promptId. handlerBody env req =
           (Inr \<lparr>rs_status = 400, rs_body = TextBody ''Flagged content'',
                 rs_headers = Some (getHeaders [] promptId)\<rparr>,
            [CreateModeration (sanitizeQuery (pa_prompt pa)) (pa_byoOpenAIKey pa),
             InsertQueryStat row])"
  using assms
  by (auto simp: handlerBody_def getMatchingSections_def sectionsFailed_def storeAndLog_def Let_def)


text \<open>Events and rows of the stages of the handler.\<close>

lemma insertedRows_append: "insertedRows (xs @ ys) = insertedRows xs @ insertedRows ys"
  by (induction xs rule: insertedRows.induct) auto

lemma insertedRows_embedding_attempts:
  "insertedRows (map (\<lambda>k. CreateEmbedding k q byo) ks) = []"
  by (induction ks) auto

lemma createEmbeddingWithRetry_events:
  assumes "createEmbeddingWithRetry env q vp pid byo = (r, ev)"
  shows "MatchFileSections a b \<notin> set ev \<and> insertedRows ev = []"
  using assms
  by (auto simp: createEmbeddingWithRetry_def Let_def insertedRows_append
      insertedRows_embedding_attempts
      split: prod.splits sum.splits option.splits if_splits)

lemma getMatchingSections_no_rows:
  assumes "getMatchingSections env q vp th cnt pid byo = (r, ev)"
  shows "insertedRows ev = []"
proof (cases "createEmbeddingWithRetry env q vp pid byo")
  case (Pair r2 ev2)
  from createEmbeddingWithRetry_events[OF Pair] have "insertedRows ev2 = []" by simp
  with assms Pair show ?thesis
    by (auto simp: getMatchingSections_def Let_def insertedRows_append
        split: sum.splits option.splits if_splits)
qed

lemma getMatchingSections_empty:
  assumes g: "getMatchingSections env q vp th cnt pid byo = (r, ev)"
    and ev: "MatchFileSections args (None, fileSections) \<in> set ev"
    and em: "fileSections = None \<or> fileSections = Some []"
  shows "r = Inl (ApiError 400 ''No relevant sections found'')"
proof (cases "createModeration env q byo")
  case (Inl e)
  with g ev show ?thesis by (auto simp: getMatchingSections_def)
next
  case (Inr m)
  show ?thesis
  proof (cases "isFlagged m")
    case True
    with g ev Inr show ?thesis by (auto simp: getMatchingSections_def)
  next
    case False
    obtain r2 ev2 where ce: "createEmbeddingWithRetry env q vp pid byo = (r2, ev2)"
      by (cases "createEmbeddingWithRetry env q vp pid byo")
    from createEmbeddingWithRetry_events[OF ce]
    have no: "MatchFileSections args (None, fileSections) \<notin> set ev2" by simp
    show ?thesis
    proof (cases r2)
      case (Inl e)
      with g ev Inr False ce no show ?thesis by (auto simp: getMatchingSections_def)
    next
      case res: (Inr embeddingResult)
      show ?thesis
      proof (cases "emb_data embeddingResult")
        case None
        with g ev Inr False ce no res show ?thesis by (auto simp: getMatchingSections_def)
      next
        case (Some promptEmbedding)
        define a where "a = \<lparr>rpc_project_id = pid, rpc_embedding = promptEmbedding,
            rpc_match_threshold = orNum th 0.5, rpc_match_count = orNum cnt 10,
            rpc_min_content_length = 30\<rparr>"
        obtain err dat where m: "match_file_sections env a = (err, dat)"
          by (cases "match_file_sections env a")
        have evs: "ev = [CreateModeration q byo] @ ev2 @ [MatchFileSections a (err, dat)]"
          using g Inr False ce res Some m
          by (auto simp: getMatchingSections_def Let_def a_def split: option.splits if_splits)
        with ev no have "err = None" "dat = fileSections" by auto
        with g Inr False ce res Some m em show ?thesis
          by (auto simp: getMatchingSections_def Let_def a_def)
      qed
    qed
  qed
qed

lemma storeAndLog_events:
  "storeAndLog env pa resp emb reason rs = (pid, ev) \<Longrightarrow>
     ev = [InsertQueryStat (storePromptRow (pa_projectId pa) (pa_prompt pa) resp emb reason rs
             (pa_insightsType pa) (pa_excludeFromInsights pa) (pa_redact pa))]"
  by (auto simp: storeAndLog_def Let_def)

lemma deliverJson_no_match:
  "deliverJson env pa res fp emb rs = (r, ev) \<Longrightarrow> MatchFileSections a b \<notin> set ev"
  by (auto simp: deliverJson_def Let_def storeAndLog_def
      split: if_splits option.splits sum.splits prod.splits)

lemma deliverStream_no_match:
  "deliverStream env pa res fp emb rs = (r, ev) \<Longrightarrow> MatchFileSections a b \<notin> set ev"
  by (auto simp: deliverStream_def Let_def storeAndLog_def
      split: if_splits option.splits sum.splits prod.splits)

lemma answerQuery_no_match:
  assumes "answerQuery env pa fs emb = (r, ev)"
  shows "MatchFileSections a b \<notin> set ev"
  using assms
  by (auto simp: answerQuery_def Let_def
      split: if_splits sum.splits prod.splits
      dest: deliverJson_no_match deliverStream_no_match)

lemma sectionsFailed_no_sections:
  assumes "sectionsFailed env pa (ApiError 400 msg) = (resp, ev)"
  shows "rs_status resp = 400 \<and> rs_body resp = TextBody msg \<and>
         (\<exists>row. ev = [InsertQueryStat row] \<and>
            q_meta row = Some \<lparr>meta_references = None, meta_noResponseReason = Some no_sections\<rparr> \<and>
            q_no_response row = Some True)"
  using assms
  by (auto simp: sectionsFailed_def storeAndLog_def storePromptRow_def storePrompt_def Let_def
      split: prod.splits)

text \<open>
  Claim C6. When the vector-index collaborator is called and returns no sections (no
  error, and \<open>data\<close> null or empty), the handler answers with status 400 and the
  message \<open>No relevant sections found\<close>, and the one row it inserts into
  \<^verbatim>\<open>query_stats\<close> carries the reason \<open>no_sections\<close>.
\<close>

theorem no_sections_fails_and_is_recorded:
  assumes "handler env req = (resp, ev)"
    and "MatchFileSections args (None, fileSections) \<in> set ev"
    and "fileSections = None \<or> fileSections = Some []"
  shows "rs_status resp = 400 \<and> rs_body resp = TextBody ''No relevant sections found'' \<and>
         (\<exists>row. insertedRows ev = [row] \<and>
            q_meta row = Some \<lparr>meta_references = None, meta_noResponseReason = Some no_sections\<rparr> \<and>
            q_no_response row = Some True)"
proof -
  from assms(1,2) obtain r where body: "handlerBody env req = (r, ev)"
    by (auto simp: handler_def split: if_splits prod.splits sum.splits)
  from assms(1) body have resp: "r = Inr resp \<or> (\<exists>e. r = Inl e)"
    using assms(2) by (cases r) (auto simp: handler_def split: if_splits)
  from body assms(2) obtain pa where pa: "parseRequest env req = Inr (Inr pa)"
    by (auto simp: handlerBody_def split: sum.splits)
  obtain r1 ev1 where g: "getMatchingSections (sections env) (sanitizeQuery (pa_prompt pa))
      (pa_prompt pa) (paramNum (pa_params pa) ''sectionsMatchThreshold'')
      (paramNum (pa_params pa) ''sectionsMatchCount'') (pa_projectId pa) (pa_byoOpenAIKey pa) = (r1, ev1)"
    by (cases "getMatchingSections (sections env) (sanitizeQuery (pa_prompt pa))
      (pa_prompt pa) (paramNum (pa_params pa) ''sectionsMatchThreshold'')
      (paramNum (pa_params pa) ''sectionsMatchCount'') (pa_projectId pa) (pa_byoOpenAIKey pa)")
  have in1: "MatchFileSections args (None, fileSections) \<in> set ev1"
  proof (cases r1)
    case (Inl e)
    obtain r2 ev2 where sf: "sectionsFailed env pa e = (r2, ev2)"
      by (cases "sectionsFailed env pa e")
    then have "\<exists>row. ev2 = [InsertQueryStat row]"
      by (auto simp: sectionsFailed_def storeAndLog_def Let_def split: prod.splits api_exn.splits)
    moreover have "ev = ev1 @ ev2"
      using body pa g Inl sf by (simp add: handlerBody_def)
    ultimately show ?thesis using assms(2) by auto
  next
    case (Inr v)
    obtain fs emb where v: "v = (fs, emb)" by (cases v)
    obtain r2 ev2 where aq: "answerQuery env pa fs emb = (r2, ev2)"
      by (cases "answerQuery env pa fs emb")
    have "ev = ev1 @ ev2"
      using body pa g Inr v aq by (simp add: handlerBody_def)
    with answerQuery_no_match[OF aq] assms(2) show ?thesis by auto
  qed
  from getMatchingSections_empty[OF g in1 assms(3)]
  have r1: "r1 = Inl (ApiError 400 ''No relevant sections found'')" .
  obtain r2 ev2 where sf: "sectionsFailed env pa (ApiError 400 ''No relevant sections found'') = (r2, ev2)"
    by (cases "sectionsFailed env pa (ApiError 400 ''No relevant sections found'')")
  have hb: "handlerBody env req = (Inr r2, ev1 @ ev2)"
    using pa g r1 sf by (simp add: handlerBody_def)
  with body have r: "r = Inr r2" and ev: "ev = ev1 @ ev2" by simp_all
  have "resp = r2"
    using assms(1,2) hb by (auto simp: handler_def split: if_splits)
  moreover note sectionsFailed_no_sections[OF sf]
  moreover have "insertedRows ev1 = []" using g by (rule getMatchingSections_no_rows)
  ultimately show ?thesis using ev by (auto simp: insertedRows_append)
qed

theorem no_sections_fails_and_is_recorded_witness:
  "MatchFileSections \<lparr>rpc_project_id = ''empty'', rpc_embedding = [1], rpc_match_threshold = 0.5,
      rpc_match_count = 10, rpc_min_content_length = 30\<rparr> (None, Some [])
     \<in> set (snd (handler demo_env (demo_request ''empty'' ''What is X?'' None))) \<and>
   rs_status (fst (handler demo_env (demo_request ''empty'' ''What is X?'' None))) = 400 \<and>
   rs_body (fst (handler demo_env (demo_request ''empty'' ''What is X?'' None))) =
     TextBody ''No relevant sections found'' \<and>
   (\<exists>row. insertedRows (snd (handler demo_env (demo_request ''empty'' ''What is X?'' None))) = [row] \<and>
      q_meta row = Some \<lparr>meta_references = None, meta_noResponseReason = Some no_sections\<rparr> \<and>
      q_no_response row = Some True)"
proof -
  let ?run = "handler demo_env (demo_request ''empty'' ''What is X?'' None)"
  have h1: "?run = (fst ?run, snd ?run)" by simp
  have h2: "MatchFileSections \<lparr>rpc_project_id = ''empty'', rpc_embedding = [1],
      rpc_match_threshold = 0.5, rpc_match_count = 10, rpc_min_content_length = 30\<rparr>
      (None, Some []) \<in> set (snd ?run)"
    by code_simp
  have h3: "Some ([] :: FileSectionMatchResult list) = None \<or>
            Some ([] :: FileSectionMatchResult list) = Some []"
    by simp
  from no_sections_fails_and_is_recorded[OF h1 h2 h3] h2 show ?thesis by simp
qed










text \<open>The two delivery paths when the provider's answer is not ok.\<close>

lemma deliverJson_provider_error:
  assumes "\<not> pr_ok res"
  shows "deliverJson env pa res fullPrompt promptEmbedding references =
    (Inr \<lparr>rs_status = 400,
          rs_body = TextBody (''Unable to retrieve completions response: '' @ pr_text res),
          rs_headers = Some (getHeaders references
            (insertQueryStat env (storePromptRow (pa_projectId pa) (pa_prompt pa) None
               promptEmbedding (Some api_error) references (pa_insightsType pa)
               (pa_excludeFromInsights pa) (pa_redact pa))))\<rparr>,
     [InsertQueryStat (storePromptRow (pa_projectId pa) (pa_prompt pa) None
               promptEmbedding (Some api_error) references (pa_insightsType pa)
               (pa_excludeFromInsights pa) (pa_redact pa))])"
  using assms by (simp add: deliverJson_def storeAndLog_def Let_def)

lemma storePromptRow_reason:
  "q_meta (storePromptRow pid prompt resp emb reason rs it ex red) = Some m \<Longrightarrow>
     meta_noResponseReason m = reason"
  by (auto simp: storePromptRow_def storePrompt_def Let_def split: if_splits)

lemma deliverStream_never_api_error:
  assumes "deliverStream env pa res fullPrompt promptEmbedding references = (resp, ev)"
  shows "rs_status resp = 200 \<and>
         (\<exists>row. insertedRows ev = [row] \<and>
            (case q_meta row of None \<Rightarrow> True | Some m \<Rightarrow> meta_noResponseReason m = None))"
proof -
  define row where "row = storePromptRow (pa_projectId pa) (pa_prompt pa) (Some []) promptEmbedding
     None references (pa_insightsType pa) (pa_excludeFromInsights pa) (pa_redact pa)"
  have "rs_status resp = 200" and "insertedRows ev = [row]"
    using assms
    by (auto simp: deliverStream_def storeAndLog_def Let_def row_def split: prod.splits if_splits)
  moreover have "case q_meta row of None \<Rightarrow> True | Some m \<Rightarrow> meta_noResponseReason m = None"
    using storePromptRow_reason[of "pa_projectId pa" "pa_prompt pa" "Some []" promptEmbedding None]
    by (auto simp: row_def split: option.splits)
  ultimately show ?thesis by blast
qed

text \<open>
  Claim C7, evaluated on one request with and without streaming, when the provider
  rejects the key. Without streaming the answer is turned into a 400 response after
  the row is stored with the reason \<open>api_error\<close>. The streaming path has no such
  check: it answers 200 with an empty stream, and the row stored for the query
  carries no reason.
\<close>

theorem streaming_ignores_provider_error:
  "fetchCompletions demo_env =
     (\<lambda>url bearer pl. Inr \<lparr>pr_ok = False, pr_text = ''Incorrect API key'', pr_json = None,
                             pr_events = []\<rparr>) \<and>
   rs_status (fst (handler demo_env (demo_request ''p1'' ''What is X?'' None))) = 200 \<and>
   rs_body (fst (handler demo_env (demo_request ''p1'' ''What is X?'' None))) = StreamBody [] False \<and>
   map (\<lambda>row. map_option meta_noResponseReason (q_meta row))
     (insertedRows (snd (handler demo_env (demo_request ''p1'' ''What is X?'' None)))) = [Some None] \<and>
   rs_status (fst (handler demo_env (demo_request ''p1'' ''What is X?'' (Some (JBool False))))) = 400 \<and>
   map (\<lambda>row. map_option meta_noResponseReason (q_meta row))
     (insertedRows (snd (handler demo_env (demo_request ''p1'' ''What is X?'' (Some (JBool False))))))
     = [Some (Some api_error)]"
proof -
  have "fetchCompletions demo_env =
     (\<lambda>url bearer pl. Inr \<lparr>pr_ok = False, pr_text = ''Incorrect API key'', pr_json = None,
                             pr_events = []\<rparr>)"
    by (simp add: demo_env_def)
  moreover have "rs_status (fst (handler demo_env (demo_request ''p1'' ''What is X?'' None))) = 200"
    by code_simp
  moreover have "rs_body (fst (handler demo_env (demo_request ''p1'' ''What is X?'' None))) =
      StreamBody [] False"
    by code_simp
  moreover have "map (\<lambda>row. map_option meta_noResponseReason (q_meta row))
     (insertedRows (snd (handler demo_env (demo_request ''p1'' ''What is X?'' None)))) = [Some None]"
    by code_simp
  moreover have "rs_status (fst (handler demo_env (demo_request ''p1'' ''What is X?''
      (Some (JBool False))))) = 400"
    by code_simp
  moreover have "map (\<lambda>row. map_option meta_noResponseReason (q_meta row))
     (insertedRows (snd (handler demo_env (demo_request ''p1'' ''What is X?'' (Some (JBool False))))))
     = [Some (Some api_error)]"
    by code_simp
  ultimately show ?thesis by blast
qed

theorem streaming_ignores_provider_error_witness:
  "rs_status (fst (handler demo_env (demo_request ''p1'' ''What is X?'' None))) = 200 \<and>
   rs_status (fst (handler demo_env (demo_request ''p1'' ''What is X?'' (Some (JBool False))))) = 400"
  using streaming_ignores_provider_error by blast

text \<open>After the request is read, \<open>params\<close> is used only at keys other than \<open>prompt\<close>.\<close>

lemma same_but_prompt_read:
  "same_but_prompt p1 p2 \<Longrightarrow> k \<noteq> ''prompt'' \<Longrightarrow> p1 k = p2 k"
  by (simp add: same_but_prompt_def)

lemma same_but_prompt_paramStr:
  "same_but_prompt p1 p2 \<Longrightarrow> k \<noteq> ''prompt'' \<Longrightarrow> paramStr p1 k = paramStr p2 k"
  by (simp add: paramStr_def same_but_prompt_def)

lemma same_but_prompt_paramNum:
  "same_but_prompt p1 p2 \<Longrightarrow> k \<noteq> ''prompt'' \<Longrightarrow> paramNum p1 k = paramNum p2 k"
  by (simp add: paramNum_def same_but_prompt_def)

lemma same_but_prompt_clear_fields:
  "same_but_prompt p1 p2 \<Longrightarrow>
   same_but_prompt (fold (\<lambda>field acc. acc(field := None)) fs p1)
                   (fold (\<lambda>field acc. acc(field := None)) fs p2)"
  by (induction fs arbitrary: p1 p2) (auto simp: same_but_prompt_def)

lemma same_but_prompt_clear:
  "same_but_prompt p1 p2 \<Longrightarrow> same_but_prompt (clearModelConfig env p1) (clearModelConfig env p2)"
  unfolding clearModelConfig_def by (rule same_but_prompt_clear_fields)

lemma same_but_prompt_upd: "same_but_prompt ps (ps(''prompt'' := v))"
  by (simp add: same_but_prompt_def)

text \<open>After the request is read, the stages use \<open>params\<close> only at keys other than \<open>prompt\<close>.\<close>

lemma storeAndLog_params:
  "storeAndLog env (pa\<lparr>pa_params := ps\<rparr>) resp emb reason rs = storeAndLog env pa resp emb reason rs"
  by (simp add: storeAndLog_def)

lemma sectionsFailed_params:
  "sectionsFailed env (pa\<lparr>pa_params := ps\<rparr>) e = sectionsFailed env pa e"
  by (simp add: sectionsFailed_def storeAndLog_params Let_def
      cong: option.case_cong sum.case_cong prod.case_cong if_cong)

lemma deliverJson_params:
  "deliverJson env (pa\<lparr>pa_params := ps\<rparr>) res fp emb rs = deliverJson env pa res fp emb rs"
  by (simp add: deliverJson_def storeAndLog_params Let_def
      cong: option.case_cong sum.case_cong prod.case_cong if_cong)

lemma deliverStream_params:
  "deliverStream env (pa\<lparr>pa_params := ps\<rparr>) res fp emb rs = deliverStream env pa res fp emb rs"
  by (simp add: deliverStream_def storeAndLog_params Let_def
      cong: option.case_cong sum.case_cong prod.case_cong if_cong)

lemma answerQuery_params:
  assumes "same_but_prompt ps1 ps2"
  shows "answerQuery env (pa\<lparr>pa_params := ps1\<rparr>) fs emb = answerQuery env (pa\<lparr>pa_params := ps2\<rparr>) fs emb"
proof -
  have r: "\<And>k. k \<noteq> ''prompt'' \<Longrightarrow> ps1 k = ps2 k"
    "\<And>k. k \<noteq> ''prompt'' \<Longrightarrow> paramStr ps1 k = paramStr ps2 k"
    "\<And>k. k \<noteq> ''prompt'' \<Longrightarrow> paramNum ps1 k = paramNum ps2 k"
    using assms by (simp_all add: same_but_prompt_read same_but_prompt_paramStr same_but_prompt_paramNum)
  show ?thesis
    by (simp add: answerQuery_def deliverJson_params deliverStream_params r Let_def
      cong: option.case_cong sum.case_cong prod.case_cong if_cong)
qed


lemma parseRequest_rel:
  assumes sb: "same_but_prompt ps1 ps2" and rp: "readPrompt env ps1 = readPrompt env ps2"
  shows "rel_sum (=) (rel_sum (=) pa_rel)
           (parseRequest env (req\<lparr>rq_json := Some ps1\<rparr>))
           (parseRequest env (req\<lparr>rq_json := Some ps2\<rparr>))"
proof -
  have r: "\<And>k. k \<noteq> ''prompt'' \<Longrightarrow> ps1 k = ps2 k"
    "\<And>k. k \<noteq> ''prompt'' \<Longrightarrow> paramStr ps1 k = paramStr ps2 k"
    using sb by (simp_all add: same_but_prompt_read same_but_prompt_paramStr)
  have c: "paramStr (clearModelConfig env ps1) ''model'' = paramStr (clearModelConfig env ps2) ''model''"
    using same_but_prompt_clear[OF sb, of env] by (simp add: same_but_prompt_paramStr)
  have sbc: "same_but_prompt (clearModelConfig env ps1) (clearModelConfig env ps2)"
    using sb by (rule same_but_prompt_clear)
  show ?thesis
  proof (cases "readPrompt env ps2")
    case (Inl e)
    then show ?thesis using rp by (simp add: parseRequest_def)
  next
    case (Inr prompt)
    then show ?thesis using rp r c sb sbc
      by (auto simp: parseRequest_def Let_def pa_rel_def split: option.splits)
  qed
qed


lemma handlerBody_same:
  assumes sb: "same_but_prompt ps1 ps2" and rp: "readPrompt env ps1 = readPrompt env ps2"
  shows "handlerBody env (req\<lparr>rq_json := Some ps1\<rparr>) = handlerBody env (req\<lparr>rq_json := Some ps2\<rparr>)"
proof -
  note rel = parseRequest_rel[OF sb rp, of req]
  show ?thesis
  proof (cases "parseRequest env (req\<lparr>rq_json := Some ps1\<rparr>)")
    case (Inl e)
    with rel show ?thesis by (auto simp: handlerBody_def elim!: rel_sum.cases)
  next
    case (Inr v)
    show ?thesis
    proof (cases v)
      case (Inl early)
      with rel Inr show ?thesis by (auto simp: handlerBody_def elim!: rel_sum.cases)
    next
      case pa: (Inr pa1)
      with rel Inr obtain pa2 where p2: "parseRequest env (req\<lparr>rq_json := Some ps2\<rparr>) = Inr (Inr pa2)"
        and pr: "pa_rel pa1 pa2"
        by (auto elim!: rel_sum.cases)
      from pr have eq: "pa2 = pa1\<lparr>pa_params := pa_params pa2\<rparr>"
        and sb2: "same_but_prompt (pa_params pa1) (pa_params pa2)"
        by (simp_all add: pa_rel_def)
      have f: "pa_prompt pa2 = pa_prompt pa1" "pa_projectId pa2 = pa_projectId pa1"
        "pa_byoOpenAIKey pa2 = pa_byoOpenAIKey pa1"
        by (subst eq, simp)+
      have n: "paramNum (pa_params pa2) ''sectionsMatchThreshold'' =
               paramNum (pa_params pa1) ''sectionsMatchThreshold''"
        "paramNum (pa_params pa2) ''sectionsMatchCount'' =
               paramNum (pa_params pa1) ''sectionsMatchCount''"
        using sb2 by (simp_all add: same_but_prompt_paramNum)
      have sf: "\<And>e. sectionsFailed env pa2 e = sectionsFailed env pa1 e"
        by (subst eq) (rule sectionsFailed_params)
      have "\<And>fs emb. answerQuery env (pa1\<lparr>pa_params := pa_params pa1\<rparr>) fs emb =
                       answerQuery env (pa1\<lparr>pa_params := pa_params pa2\<rparr>) fs emb"
        using sb2 by (rule answerQuery_params)
      then have aq: "\<And>fs emb. answerQuery env pa2 fs emb = answerQuery env pa1 fs emb"
        using eq by simp
      show ?thesis
        using Inr pa p2
        by (simp add: handlerBody_def f n sf aq cong: prod.case_cong sum.case_cong)
    qed
  qed
qed

lemma handler_same:
  assumes "same_but_prompt ps1 ps2" and "readPrompt env ps1 = readPrompt env ps2"
  shows "handler env (req\<lparr>rq_json := Some ps1\<rparr>) = handler env (req\<lparr>rq_json := Some ps2\<rparr>)"
  by (simp add: handler_def handlerBody_same[OF assms] cong: prod.case_cong sum.case_cong)

lemma readPrompt_truncated:
  "ps ''prompt'' = Some (JStr p) \<Longrightarrow>
   readPrompt env (ps(''prompt'' := Some (JStr (take (MAX_PROMPT_LENGTH env) p)))) = readPrompt env ps"
  by (simp add: readPrompt_def)

lemma queriesOf_append: "queriesOf (xs @ ys) = queriesOf xs @ queriesOf ys"
  by (induction xs rule: queriesOf.induct) auto

lemma prompt_only_append:
  "prompt_only p (xs @ ys) \<longleftrightarrow> prompt_only p xs \<and> prompt_only p ys"
  by (auto simp: prompt_only_def queriesOf_append insertedRows_append)

lemma prompt_only_Nil: "prompt_only p []"
  by (simp add: prompt_only_def)

lemma prompt_only_other:
  "prompt_only p (RecordProjectTokenCount a b c d # ev) = prompt_only p ev"
  "prompt_only p (MatchFileSections g h # ev) = prompt_only p ev"
  "prompt_only p (UpdateQueryStat i j # ev) = prompt_only p ev"
  "prompt_only p (Track k # ev) = prompt_only p ev"
  "prompt_only p (FetchCompletions l m n # ev) = prompt_only p ev"
  by (simp_all add: prompt_only_def)

lemma storePromptRow_prompt:
  "q_prompt (storePromptRow pid prompt resp emb reason rs it ex red) = None \<or>
   q_prompt (storePromptRow pid prompt resp emb reason rs it ex red) = Some prompt"
  by (simp add: storePromptRow_def storePrompt_def Let_def)

lemma storeAndLog_prompt_only:
  "storeAndLog env pa resp emb reason rs = (pid, ev) \<Longrightarrow> prompt_only (pa_prompt pa) ev"
  using storePromptRow_prompt[of "pa_projectId pa" "pa_prompt pa" resp emb reason rs
      "pa_insightsType pa" "pa_excludeFromInsights pa" "pa_redact pa"]
  by (auto simp: storeAndLog_def Let_def prompt_only_def)

lemma sectionsFailed_prompt_only:
  assumes "sectionsFailed env pa e = (r, ev)"
  shows "prompt_only (pa_prompt pa) ev"
proof -
  obtain pid ev1 where s: "storeAndLog env pa None None (Some no_sections) [] = (pid, ev1)"
    by (cases "storeAndLog env pa None None (Some no_sections) []")
  with assms have "ev = ev1"
    by (auto simp: sectionsFailed_def Let_def split: api_exn.splits)
  with storeAndLog_prompt_only[OF s] show ?thesis by simp
qed

lemma deliverJson_prompt_only:
  assumes "deliverJson env pa res fp emb rs = (r, ev)"
  shows "prompt_only (pa_prompt pa) ev"
  using assms
  by (auto simp: deliverJson_def Let_def prompt_only_Nil prompt_only_other prompt_only_append
      split: if_splits option.splits sum.splits prod.splits
      dest: storeAndLog_prompt_only)

lemma deliverStream_prompt_only:
  assumes "deliverStream env pa res fp emb rs = (r, ev)"
  shows "prompt_only (pa_prompt pa) ev"
  using assms
  by (auto simp: deliverStream_def Let_def prompt_only_Nil prompt_only_other prompt_only_append
      split: if_splits option.splits sum.splits prod.splits
      dest: storeAndLog_prompt_only)

lemma answerQuery_prompt_only:
  assumes "answerQuery env pa fs emb = (r, ev)"
  shows "prompt_only (pa_prompt pa) ev"
  using assms
  by (auto simp: answerQuery_def Let_def prompt_only_Nil prompt_only_other prompt_only_append
      split: if_splits sum.splits prod.splits
      dest: deliverJson_prompt_only deliverStream_prompt_only)

lemma queriesOf_attempts:
  "queriesOf (map (\<lambda>k. CreateEmbedding k q byo) ks) = replicate (length ks) q"
  by (induction ks) auto

lemma createEmbeddingWithRetry_queries:
  assumes "createEmbeddingWithRetry env q vp pid byo = (r, ev)"
  shows "set (queriesOf ev) \<subseteq> {q}"
  using assms
  by (auto simp: createEmbeddingWithRetry_def Let_def queriesOf_append queriesOf_attempts
      split: prod.splits sum.splits option.splits if_splits)

lemma getMatchingSections_queries:
  assumes "getMatchingSections env q vp th cnt pid byo = (r, ev)"
  shows "set (queriesOf ev) \<subseteq> {q}"
proof (cases "createEmbeddingWithRetry env q vp pid byo")
  case (Pair r2 ev2)
  from createEmbeddingWithRetry_queries[OF Pair] have "set (queriesOf ev2) \<subseteq> {q}" .
  with assms Pair show ?thesis
    by (auto simp: getMatchingSections_def Let_def queriesOf_append
        split: sum.splits option.splits if_splits)
qed

lemma handlerBody_prompt_only:
  assumes hb: "handlerBody env req = (r, ev)"
  shows "(case parseRequest env req of
            Inr (Inr pa) \<Rightarrow> prompt_only (pa_prompt pa) ev
          | _ \<Rightarrow> ev = [])"
proof (cases "parseRequest env req")
  case (Inl e)
  with hb show ?thesis by (simp add: handlerBody_def)
next
  case (Inr v)
  show ?thesis
  proof (cases v)
    case (Inl early)
    with hb Inr show ?thesis by (simp add: handlerBody_def)
  next
    case pa: (Inr pa)
    obtain r1 ev1 where g: "getMatchingSections (sections env) (sanitizeQuery (pa_prompt pa))
      (pa_prompt pa) (paramNum (pa_params pa) ''sectionsMatchThreshold'')
      (paramNum (pa_params pa) ''sectionsMatchCount'') (pa_projectId pa) (pa_byoOpenAIKey pa) = (r1, ev1)"
      by (cases "getMatchingSections (sections env) (sanitizeQuery (pa_prompt pa))
      (pa_prompt pa) (paramNum (pa_params pa) ''sectionsMatchThreshold'')
      (paramNum (pa_params pa) ''sectionsMatchCount'') (pa_projectId pa) (pa_byoOpenAIKey pa)")
    have p1: "prompt_only (pa_prompt pa) ev1"
      using getMatchingSections_queries[OF g] getMatchingSections_no_rows[OF g]
      by (auto simp: prompt_only_def)
    have "\<exists>ev2. ev = ev1 @ ev2 \<and> prompt_only (pa_prompt pa) ev2"
    proof (cases r1)
      case (Inl e)
      obtain r2 ev2 where sf: "sectionsFailed env pa e = (r2, ev2)"
        by (cases "sectionsFailed env pa e")
      have "ev = ev1 @ ev2" using hb Inr pa g Inl sf by (simp add: handlerBody_def)
      with sectionsFailed_prompt_only[OF sf] show ?thesis by blast
    next
      case res: (Inr w)
      obtain fs emb where w: "w = (fs, emb)" by (cases w)
      obtain r2 ev2 where aq: "answerQuery env pa fs emb = (r2, ev2)"
        by (cases "answerQuery env pa fs emb")
      have "ev = ev1 @ ev2" using hb Inr pa g res w aq by (simp add: handlerBody_def)
      with answerQuery_prompt_only[OF aq] show ?thesis by blast
    qed
    with p1 have "prompt_only (pa_prompt pa) ev" by (auto simp: prompt_only_append)
    with Inr pa show ?thesis by simp
  qed
qed

lemma parseRequest_prompt:
  assumes "rq_json req = Some ps" and "ps ''prompt'' = Some (JStr p)"
    and "parseRequest env req = Inr (Inr pa)"
  shows "pa_prompt pa = take (MAX_PROMPT_LENGTH env) p"
  using assms
  by (auto simp: parseRequest_def readPrompt_def Let_def or_empty_def split: if_splits option.splits)

text \<open>
  Claim C10. The handler reads the prompt once, cut to \<open>MAX_PROMPT_LENGTH\<close> characters.
  A request whose body carries the prompt \<open>p\<close> is handled exactly as the request
  that carries the first \<open>MAX_PROMPT_LENGTH\<close> characters of \<open>p\<close>: same response, same
  calls to every collaborator (moderation, embedding, retrieval, the prompt sent to
  the provider, the rows stored). Moderation and embedding receive the sanitized
  truncated prompt, and every stored row holds the truncated prompt or none.
\<close>

theorem prompt_truncated_before_use:
  assumes js: "rq_json req = Some ps" and pr: "ps ''prompt'' = Some (JStr p)"
    and h: "handler env req = (resp, ev)"
  shows "handler env (req\<lparr>rq_json := Some (ps(''prompt'' := Some (JStr (take (MAX_PROMPT_LENGTH env) p))))\<rparr>)
           = (resp, ev) \<and>
         (\<forall>q \<in> set (queriesOf ev). q = sanitizeQuery (take (MAX_PROMPT_LENGTH env) p)) \<and>
         (\<forall>row \<in> set (insertedRows ev).
            q_prompt row = None \<or> q_prompt row = Some (take (MAX_PROMPT_LENGTH env) p))"
proof -
  have req: "req\<lparr>rq_json := Some ps\<rparr> = req" using js by simp
  have "handler env (req\<lparr>rq_json := Some ps\<rparr>) =
        handler env (req\<lparr>rq_json := Some (ps(''prompt'' := Some (JStr (take (MAX_PROMPT_LENGTH env) p))))\<rparr>)"
  proof (rule handler_same)
    show "same_but_prompt ps (ps(''prompt'' := Some (JStr (take (MAX_PROMPT_LENGTH env) p))))"
      by (rule same_but_prompt_upd)
    show "readPrompt env ps =
          readPrompt env (ps(''prompt'' := Some (JStr (take (MAX_PROMPT_LENGTH env) p))))"
      using pr by (simp add: readPrompt_def)
  qed
  with req h have first: "handler env (req\<lparr>rq_json := Some (ps(''prompt'' :=
      Some (JStr (take (MAX_PROMPT_LENGTH env) p))))\<rparr>) = (resp, ev)" by simp
  have "prompt_only (take (MAX_PROMPT_LENGTH env) p) ev"
  proof (cases "ev = []")
    case True
    then show ?thesis by (simp add: prompt_only_Nil)
  next
    case False
    with h obtain r where hb: "handlerBody env req = (r, ev)"
      by (auto simp: handler_def split: if_splits prod.splits sum.splits)
    from handlerBody_prompt_only[OF hb] False
    obtain pa where pa: "parseRequest env req = Inr (Inr pa)" and po: "prompt_only (pa_prompt pa) ev"
      by (auto split: sum.splits)
    from parseRequest_prompt[OF js pr pa] po show ?thesis by simp
  qed
  with first show ?thesis by (simp add: prompt_only_def)
qed

theorem prompt_truncated_before_use_witness:
  "rq_json (demo_request ''p1'' ''What is X? And what is Y?'' (Some (JBool False))) =
     Some (demo_params ''What is X? And what is Y?'' (Some (JBool False))) \<and>
   demo_params ''What is X? And what is Y?'' (Some (JBool False)) ''prompt'' =
     Some (JStr ''What is X? And what is Y?'') \<and>
   take (MAX_PROMPT_LENGTH demo_env) ''What is X? And what is Y?'' = ''What is X?'' \<and>
   handler demo_env
     ((demo_request ''p1'' ''What is X? And what is Y?'' (Some (JBool False)))
        \<lparr>rq_json := Some ((demo_params ''What is X? And what is Y?'' (Some (JBool False)))
                            (''prompt'' := Some (JStr ''What is X?'')))\<rparr>) =
     handler demo_env (demo_request ''p1'' ''What is X? And what is Y?'' (Some (JBool False))) \<and>
   queriesOf (snd (handler demo_env
       (demo_request ''p1'' ''What is X? And what is Y?'' (Some (JBool False))))) =
     [''What is X?'', ''What is X?'', ''What is X?''] \<and>
   map q_prompt (insertedRows (snd (handler demo_env
       (demo_request ''p1'' ''What is X? And what is Y?'' (Some (JBool False)))))) =
     [Some ''What is X?'']"
proof -
  let ?req = "demo_request ''p1'' ''What is X? And what is Y?'' (Some (JBool False))"
  let ?ps = "demo_params ''What is X? And what is Y?'' (Some (JBool False))"
  have h1: "rq_json ?req = Some ?ps" by (simp add: demo_request_def)
  have h2: "?ps ''prompt'' = Some (JStr ''What is X? And what is Y?'')"
    by (simp add: demo_params_def)
  have h3: "handler demo_env ?req = (fst (handler demo_env ?req), snd (handler demo_env ?req))"
    by simp
  have tk: "take (MAX_PROMPT_LENGTH demo_env) ''What is X? And what is Y?'' = ''What is X?''"
    by (simp add: demo_env_def)
  note t = prompt_truncated_before_use[OF h1 h2 h3]
  have same: "handler demo_env (?req\<lparr>rq_json := Some (?ps(''prompt'' := Some (JStr ''What is X?'')))\<rparr>) =
      handler demo_env ?req"
    using t[THEN conjunct1] tk by simp
  have q: "queriesOf (snd (handler demo_env ?req)) = [''What is X?'', ''What is X?'', ''What is X?'']"
    by code_simp
  have r: "map q_prompt (insertedRows (snd (handler demo_env ?req))) = [Some ''What is X?'']"
    by code_simp
  show ?thesis by (intro conjI h1 h2 tk same q r)
qed

end
